theory Spec2Isabelle
  imports Main "HOL-Library.Word"
begin

section \<open>Sidequest: task lifecycle, chat, ratings and blocks\<close>

text \<open>
  The server actions of \<^verbatim>\<open>lib/actions\<close> run against the relational store declared in
  \<^verbatim>\<open>supabase/migrations/00001_initial_schema.sql\<close>. They connect with the public key and
  the caller's session, so every statement they issue is filtered by the row-security
  policies of that migration and checked by its table constraints. The store, its policies
  and the actions are embedded below; an action takes the request context (the
  authenticated user, the clock and the identifier the store generates for a new row) and
  the store, and returns its \<^verbatim>\<open>ActionResult\<close> with the store it leaves behind.
\<close>

subsection \<open>Strings\<close>

text \<open>
  A JavaScript string is a sequence of UTF-16 code units; \<^verbatim>\<open>.length\<close> counts code units.
  The store's \<^verbatim>\<open>length(text)\<close> counts characters, a surrogate pair being one character.
\<close>

type_synonym jsstring = "16 word list"

definition js :: "string \<Rightarrow> jsstring" where
  "js s = map of_char s"

definition isWhiteSpace :: "16 word \<Rightarrow> bool" where
  "isWhiteSpace c \<longleftrightarrow>
     c = 0x0009 \<or> c = 0x000A \<or> c = 0x000B \<or> c = 0x000C \<or> c = 0x000D \<or> c = 0x0020 \<or>
     c = 0x00A0 \<or> c = 0x1680 \<or> (0x2000 \<le> c \<and> c \<le> 0x200A) \<or> c = 0x2028 \<or> c = 0x2029 \<or>
     c = 0x202F \<or> c = 0x205F \<or> c = 0x3000 \<or> c = 0xFEFF"

definition trim :: "jsstring \<Rightarrow> jsstring" where
  "trim s = rev (dropWhile isWhiteSpace (rev (dropWhile isWhiteSpace s)))"

definition high_surrogate :: "16 word \<Rightarrow> bool" where
  "high_surrogate c \<longleftrightarrow> 0xD800 \<le> c \<and> c \<le> 0xDBFF"

definition low_surrogate :: "16 word \<Rightarrow> bool" where
  "low_surrogate c \<longleftrightarrow> 0xDC00 \<le> c \<and> c \<le> 0xDFFF"

fun char_length :: "jsstring \<Rightarrow> nat" where
  "char_length [] = 0"
| "char_length [c] = 1"
| "char_length (c # d # cs) =
     (if high_surrogate c \<and> low_surrogate d then Suc (char_length cs)
      else Suc (char_length (d # cs)))"

text \<open>
  The store's \<^verbatim>\<open>text\<close> type holds neither the character U+0000 nor an unpaired surrogate;
  a statement carrying such a value is rejected.
\<close>

fun text_ok :: "jsstring \<Rightarrow> bool" where
  "text_ok [] = True"
| "text_ok [c] = (c \<noteq> 0 \<and> \<not> high_surrogate c \<and> \<not> low_surrogate c)"
| "text_ok (c # d # cs) =
     (if high_surrogate c then low_surrogate d \<and> text_ok cs
      else c \<noteq> 0 \<and> \<not> low_surrogate c \<and> text_ok (d # cs))"

subsection \<open>Tables\<close>

type_synonym uuid = nat
type_synonym timestamp = int

datatype task_status = OPEN | ACCEPTED | COMPLETE | CANCELED

datatype task_category = ERRAND | DELIVERY | MOVING | TUTORING | CLEANING | OTHER

datatype time_window = NOW | TODAY | THIS_WEEK | SCHEDULED

datatype message_type = TEXT | SYSTEM

record profile =
  p_id :: uuid
  email :: jsstring
  display_name :: "jsstring option"
  accepted_rules :: bool
  p_created_at :: timestamp

record task =
  t_id :: uuid
  poster_id :: uuid
  accepted_by_user_id :: "uuid option"
  status :: task_status
  title :: jsstring
  description :: jsstring
  category :: task_category
  location_text :: jsstring
  time_window :: time_window
  scheduled_at :: "timestamp option"
  price_cents :: int
  created_at :: timestamp
  accepted_at :: "timestamp option"
  completed_at :: "timestamp option"
  canceled_at :: "timestamp option"

record message =
  m_id :: uuid
  m_task_id :: uuid
  sender_id :: uuid
  m_type :: message_type
  body :: jsstring
  m_created_at :: timestamp

record rating =
  r_id :: uuid
  r_task_id :: uuid
  rater_id :: uuid
  ratee_id :: uuid
  stars :: int
  comment :: "jsstring option"
  r_created_at :: timestamp

record block =
  b_id :: uuid
  blocker_id :: uuid
  blocked_id :: uuid
  b_created_at :: timestamp

text \<open>Each table is the list of its rows, in the order they were inserted.\<close>

record db =
  profiles :: "profile list"
  tasks :: "task list"
  messages :: "message list"
  ratings :: "rating list"
  blocks :: "block list"

definition empty_db :: db where
  "empty_db = \<lparr>profiles = [], tasks = [], messages = [], ratings = [], blocks = []\<rparr>"

subsection \<open>Table constraints\<close>

definition has_profile :: "db \<Rightarrow> uuid \<Rightarrow> bool" where
  "has_profile s u = list_ex (\<lambda>p. p_id p = u) (profiles s)"

definition has_task :: "db \<Rightarrow> uuid \<Rightarrow> bool" where
  "has_task s i = list_ex (\<lambda>t. t_id t = i) (tasks s)"

text \<open>\<^verbatim>\<open>title_length\<close>, \<^verbatim>\<open>description_length\<close>, \<^verbatim>\<open>location_length\<close>, \<^verbatim>\<open>price_range\<close>
  and \<^verbatim>\<open>scheduled_at_required\<close>, with the two foreign keys of the table.\<close>

definition task_constraints :: "db \<Rightarrow> task \<Rightarrow> bool" where
  "task_constraints s t \<longleftrightarrow>
     text_ok (title t) \<and> text_ok (description t) \<and> text_ok (location_text t) \<and>
     1 \<le> char_length (title t) \<and> char_length (title t) \<le> 80 \<and>
     1 \<le> char_length (description t) \<and> char_length (description t) \<le> 1000 \<and>
     1 \<le> char_length (location_text t) \<and> char_length (location_text t) \<le> 120 \<and>
     500 \<le> price_cents t \<and> price_cents t \<le> 50000 \<and>
     ((time_window t = SCHEDULED \<and> scheduled_at t \<noteq> None) \<or> time_window t \<noteq> SCHEDULED) \<and>
     has_profile s (poster_id t) \<and>
     (case accepted_by_user_id t of None \<Rightarrow> True | Some w \<Rightarrow> has_profile s w)"

text \<open>\<^verbatim>\<open>body_not_empty\<close> and the foreign keys of \<^verbatim>\<open>messages\<close>.\<close>

definition message_constraints :: "db \<Rightarrow> message \<Rightarrow> bool" where
  "message_constraints s m \<longleftrightarrow>
     text_ok (body m) \<and> 1 \<le> char_length (body m) \<and> char_length (body m) \<le> 2000 \<and>
     has_task s (m_task_id m) \<and> has_profile s (sender_id m)"

text \<open>\<^verbatim>\<open>stars_range\<close>, \<^verbatim>\<open>comment_length\<close>, \<^verbatim>\<open>no_self_rating\<close>, the uniqueness of
  \<^verbatim>\<open>(task_id, rater_id)\<close> and the foreign keys of \<^verbatim>\<open>ratings\<close>.\<close>

definition rating_constraints :: "db \<Rightarrow> rating \<Rightarrow> bool" where
  "rating_constraints s r \<longleftrightarrow>
     1 \<le> stars r \<and> stars r \<le> 5 \<and>
     (case comment r of None \<Rightarrow> True | Some c \<Rightarrow> text_ok c \<and> char_length c \<le> 500) \<and>
     rater_id r \<noteq> ratee_id r \<and>
     \<not> list_ex (\<lambda>q. r_task_id q = r_task_id r \<and> rater_id q = rater_id r) (ratings s) \<and>
     has_task s (r_task_id r) \<and> has_profile s (rater_id r) \<and> has_profile s (ratee_id r)"

text \<open>\<^verbatim>\<open>no_self_block\<close>, the uniqueness of \<^verbatim>\<open>(blocker_id, blocked_id)\<close> and the foreign
  keys of \<^verbatim>\<open>blocks\<close>.\<close>

definition block_constraints :: "db \<Rightarrow> block \<Rightarrow> bool" where
  "block_constraints s b \<longleftrightarrow>
     blocker_id b \<noteq> blocked_id b \<and>
     \<not> list_ex (\<lambda>q. blocker_id q = blocker_id b \<and> blocked_id q = blocked_id b) (blocks s) \<and>
     has_profile s (blocker_id b) \<and> has_profile s (blocked_id b)"

subsection \<open>Helper function and row-security policies\<close>

text \<open>\<^verbatim>\<open>is_blocked(viewer_id, other_id)\<close>: a block row in either direction. With a null
  argument no row compares equal, so the result is false.\<close>

definition is_blocked :: "db \<Rightarrow> uuid option \<Rightarrow> uuid option \<Rightarrow> bool" where
  "is_blocked s viewer other =
     (case viewer of None \<Rightarrow> False | Some v \<Rightarrow>
      (case other of None \<Rightarrow> False | Some w \<Rightarrow>
         list_ex (\<lambda>b. (blocker_id b = v \<and> blocked_id b = w) \<or>
                      (blocker_id b = w \<and> blocked_id b = v)) (blocks s)))"

definition rules_accepted :: "db \<Rightarrow> uuid \<Rightarrow> bool" where
  "rules_accepted s u = list_ex (\<lambda>p. p_id p = u \<and> accepted_rules p) (profiles s)"

definition tasks_read :: "db \<Rightarrow> uuid \<Rightarrow> task \<Rightarrow> bool" where
  "tasks_read s u t \<longleftrightarrow>
     \<not> is_blocked s (Some u) (Some (poster_id t)) \<and>
     (accepted_by_user_id t = None \<or> \<not> is_blocked s (Some u) (accepted_by_user_id t))"

definition tasks_insert :: "db \<Rightarrow> uuid \<Rightarrow> task \<Rightarrow> bool" where
  "tasks_insert s u t \<longleftrightarrow> poster_id t = u \<and> rules_accepted s u"

definition tasks_update_using :: "uuid \<Rightarrow> task \<Rightarrow> bool" where
  "tasks_update_using u t \<longleftrightarrow> poster_id t = u \<or> accepted_by_user_id t = Some u"

definition tasks_update_check :: "db \<Rightarrow> uuid \<Rightarrow> task \<Rightarrow> bool" where
  "tasks_update_check s u t \<longleftrightarrow>
     (poster_id t = u \<and> status t = OPEN)
     \<or> (poster_id t = u \<and> status t = CANCELED)
     \<or> (accepted_by_user_id t = Some u \<and> status t = CANCELED)
     \<or> (status t = ACCEPTED \<and> accepted_by_user_id t = Some u \<and> poster_id t \<noteq> u
         \<and> rules_accepted s u)
     \<or> (poster_id t = u \<and> status t = COMPLETE)"

text \<open>The rows of \<^verbatim>\<open>tasks\<close> a session can read. Every policy is granted to the
  authenticated role only, so a request without a user reads nothing.\<close>

definition visible_tasks :: "db \<Rightarrow> uuid option \<Rightarrow> task list" where
  "visible_tasks s user =
     (case user of None \<Rightarrow> [] | Some u \<Rightarrow> filter (tasks_read s u) (tasks s))"

text \<open>The sub-select on \<^verbatim>\<open>tasks\<close> inside the policies of \<^verbatim>\<open>messages\<close> and \<^verbatim>\<open>ratings\<close>
  is itself subject to \<^verbatim>\<open>tasks_read\<close>.\<close>

definition messages_read :: "db \<Rightarrow> uuid \<Rightarrow> message \<Rightarrow> bool" where
  "messages_read s u m =
     list_ex (\<lambda>t. t_id t = m_task_id m \<and> (poster_id t = u \<or> accepted_by_user_id t = Some u))
       (visible_tasks s (Some u))"

definition messages_insert :: "db \<Rightarrow> uuid \<Rightarrow> message \<Rightarrow> bool" where
  "messages_insert s u m \<longleftrightarrow>
     sender_id m = u \<and>
     list_ex (\<lambda>t. t_id t = m_task_id m \<and> (poster_id t = u \<or> accepted_by_user_id t = Some u)
                  \<and> \<not> is_blocked s (Some (poster_id t)) (accepted_by_user_id t))
       (visible_tasks s (Some u))"

definition ratings_insert :: "db \<Rightarrow> uuid \<Rightarrow> rating \<Rightarrow> bool" where
  "ratings_insert s u r \<longleftrightarrow>
     rater_id r = u \<and>
     list_ex (\<lambda>t. t_id t = r_task_id r \<and> status t = COMPLETE
                  \<and> (poster_id t = u \<or> accepted_by_user_id t = Some u)
                  \<and> ((poster_id t = u \<and> Some (ratee_id r) = accepted_by_user_id t)
                     \<or> (accepted_by_user_id t = Some u \<and> ratee_id r = poster_id t)))
       (visible_tasks s (Some u))"

definition blocks_read :: "uuid \<Rightarrow> block \<Rightarrow> bool" where
  "blocks_read u b \<longleftrightarrow> blocker_id b = u"

definition blocks_insert :: "uuid \<Rightarrow> block \<Rightarrow> bool" where
  "blocks_insert u b \<longleftrightarrow> blocker_id b = u"

subsection \<open>Statements\<close>

text \<open>\<^verbatim>\<open>.single()\<close>: the row when the result has exactly one, no data otherwise.\<close>

definition single :: "'a list \<Rightarrow> 'a option" where
  "single xs = (case xs of [x] \<Rightarrow> Some x | _ \<Rightarrow> None)"

text \<open>\<^verbatim>\<open>from('profiles').select().eq('id', i).single()\<close>; \<^verbatim>\<open>profiles_read\<close> admits every
  row.\<close>

definition select_profile :: "db \<Rightarrow> uuid \<Rightarrow> profile option" where
  "select_profile s i = single (filter (\<lambda>p. p_id p = i) (profiles s))"

text \<open>\<^verbatim>\<open>from('tasks').select().eq('id', i).single()\<close>\<close>

definition select_task :: "db \<Rightarrow> uuid option \<Rightarrow> uuid \<Rightarrow> task option" where
  "select_task s user i = single (filter (\<lambda>t. t_id t = i) (visible_tasks s user))"

text \<open>An insert adds the row when the insert policy, the constraints and the primary key
  admit it, and fails without effect otherwise. With \<^verbatim>\<open>.select()\<close> the new row is returned
  and must pass the read policy too.\<close>

definition insert_task :: "db \<Rightarrow> uuid \<Rightarrow> task \<Rightarrow> db option" where
  "insert_task s u t =
     (if tasks_insert s u t \<and> tasks_read s u t \<and> task_constraints s t \<and> \<not> has_task s (t_id t)
      then Some (s\<lparr>tasks := tasks s @ [t]\<rparr>) else None)"

definition message_admitted :: "db \<Rightarrow> uuid \<Rightarrow> message \<Rightarrow> bool" where
  "message_admitted s u m \<longleftrightarrow>
     messages_insert s u m \<and> message_constraints s m \<and>
     \<not> list_ex (\<lambda>q. m_id q = m_id m) (messages s)"

definition insert_message :: "db \<Rightarrow> uuid \<Rightarrow> message \<Rightarrow> db option" where
  "insert_message s u m =
     (if message_admitted s u m then Some (s\<lparr>messages := messages s @ [m]\<rparr>) else None)"

definition insert_message_returning :: "db \<Rightarrow> uuid \<Rightarrow> message \<Rightarrow> db option" where
  "insert_message_returning s u m =
     (if message_admitted s u m \<and> messages_read s u m
      then Some (s\<lparr>messages := messages s @ [m]\<rparr>) else None)"

definition insert_rating :: "db \<Rightarrow> uuid \<Rightarrow> rating \<Rightarrow> db option" where
  "insert_rating s u r =
     (if ratings_insert s u r \<and> rating_constraints s r \<and>
         \<not> list_ex (\<lambda>q. r_id q = r_id r) (ratings s)
      then Some (s\<lparr>ratings := ratings s @ [r]\<rparr>) else None)"

definition insert_block :: "db \<Rightarrow> uuid \<Rightarrow> block \<Rightarrow> db option" where
  "insert_block s u b =
     (if blocks_insert u b \<and> block_constraints s b \<and>
         \<not> list_ex (\<lambda>q. b_id q = b_id b) (blocks s)
      then Some (s\<lparr>blocks := blocks s @ [b]\<rparr>) else None)"

text \<open>
  \<^verbatim>\<open>from('tasks').update(...)\<close> with its \<^verbatim>\<open>.eq\<close> filters \<open>cond\<close>. The statement touches the
  rows that the session can read, that pass the \<^verbatim>\<open>USING\<close> clause of \<^verbatim>\<open>tasks_update\<close> and
  that match the filters; rows outside are skipped silently. Each new row must pass the
  \<^verbatim>\<open>WITH CHECK\<close> clause, the read policy and the table constraints, or the whole statement
  fails. A statement that touches no row succeeds and changes nothing.
\<close>

definition update_target :: "db \<Rightarrow> uuid \<Rightarrow> (task \<Rightarrow> bool) \<Rightarrow> task \<Rightarrow> bool" where
  "update_target s u cond t \<longleftrightarrow> tasks_read s u t \<and> tasks_update_using u t \<and> cond t"

definition update_admitted :: "db \<Rightarrow> uuid \<Rightarrow> task \<Rightarrow> bool" where
  "update_admitted s u t \<longleftrightarrow>
     tasks_update_check s u t \<and> tasks_read s u t \<and> task_constraints s t"

definition update_tasks ::
    "db \<Rightarrow> uuid \<Rightarrow> (task \<Rightarrow> bool) \<Rightarrow> (task \<Rightarrow> task) \<Rightarrow> db option" where
  "update_tasks s u cond upd =
     (if list_all (update_admitted s u) (map upd (filter (update_target s u cond) (tasks s)))
      then Some (s\<lparr>tasks := map (\<lambda>t. if update_target s u cond t then upd t else t) (tasks s)\<rparr>)
      else None)"

text \<open>With \<^verbatim>\<open>.select().single()\<close> the statement returns the updated row and fails, with
  nothing written, unless exactly one row was touched.\<close>

definition update_task_single ::
    "db \<Rightarrow> uuid \<Rightarrow> (task \<Rightarrow> bool) \<Rightarrow> (task \<Rightarrow> task) \<Rightarrow> (task \<times> db) option" where
  "update_task_single s u cond upd =
     (case filter (update_target s u cond) (tasks s) of
        [t] \<Rightarrow> (case update_tasks s u cond upd of
                  None \<Rightarrow> None
                | Some s' \<Rightarrow> Some (upd t, s'))
      | _ \<Rightarrow> None)"

subsection \<open>Request context and results\<close>

text \<open>\<^verbatim>\<open>user\<close> is what \<^verbatim>\<open>supabase.auth.getUser()\<close> yields, \<^verbatim>\<open>now\<close> the clock in
  milliseconds and \<^verbatim>\<open>new_id\<close> the identifier \<^verbatim>\<open>uuid_generate_v4()\<close> gives the row the
  request inserts.\<close>

record ctx =
  user :: "uuid option"
  now :: timestamp
  new_id :: uuid

text \<open>The two readers of a timestamp string: \<^verbatim>\<open>new Date(string)\<close> in the action (no value
  stands for an invalid date) and the store's conversion of the string to
  \<^verbatim>\<open>TIMESTAMPTZ\<close> (no value stands for a rejected input).\<close>

record platform =
  date_parse :: "jsstring \<Rightarrow> timestamp option"
  timestamptz_in :: "jsstring \<Rightarrow> timestamp option"

datatype 'a ActionResult = Success 'a | Failure string

fun success :: "'a ActionResult \<Rightarrow> bool" where
  "success (Success _) = True"
| "success (Failure _) = False"

subsection \<open>Task actions\<close>

record CreateTaskInput =
  c_title :: jsstring
  c_description :: jsstring
  c_category :: task_category
  c_location_text :: jsstring
  c_time_window :: time_window
  c_scheduled_at :: "jsstring option"
  c_price_cents :: int

text \<open>\<^verbatim>\<open>validateTaskInput\<close>: the error message, or nothing when the input is valid. A
  comparison with an invalid date is false, so an unparsable \<^verbatim>\<open>scheduled_at\<close> passes.\<close>

definition validateTaskInput :: "platform \<Rightarrow> timestamp \<Rightarrow> CreateTaskInput \<Rightarrow> string option" where
  "validateTaskInput pf clock input =
     (if c_title input = [] \<or> length (trim (c_title input)) = 0 then
        Some ''Title is required''
      else if length (c_title input) > 80 then
        Some ''Title must be 80 characters or less''
      else if c_description input = [] \<or> length (trim (c_description input)) = 0 then
        Some ''Description is required''
      else if length (c_description input) > 1000 then
        Some ''Description must be 1000 characters or less''
      else if c_location_text input = [] \<or> length (trim (c_location_text input)) = 0 then
        Some ''Location is required''
      else if length (c_location_text input) > 120 then
        Some ''Location must be 120 characters or less''
      else if c_price_cents input < 500 then
        Some ''Minimum price is $5.00''
      else if c_price_cents input > 50000 then
        Some ''Maximum price is $500.00''
      else if c_time_window input = SCHEDULED then
        (case c_scheduled_at input of
           None \<Rightarrow> Some ''Scheduled time is required''
         | Some raw \<Rightarrow>
             if raw = [] then Some ''Scheduled time is required''
             else (case date_parse pf raw of
                     None \<Rightarrow> None
                   | Some scheduledDate \<Rightarrow>
                       if scheduledDate \<le> clock
                       then Some ''Scheduled time must be in the future''
                       else None))
      else None)"

text \<open>The value the insert of \<^verbatim>\<open>createTask\<close> sends for the column \<^verbatim>\<open>scheduled_at\<close>, as
  the store reads it: no result when the store rejects the string.\<close>

definition scheduled_at_column :: "platform \<Rightarrow> CreateTaskInput \<Rightarrow> timestamp option option" where
  "scheduled_at_column pf input =
     (if c_time_window input = SCHEDULED then
        (case c_scheduled_at input of
           None \<Rightarrow> Some None
         | Some raw \<Rightarrow> map_option Some (timestamptz_in pf raw))
      else Some None)"

definition new_task :: "ctx \<Rightarrow> uuid \<Rightarrow> CreateTaskInput \<Rightarrow> timestamp option \<Rightarrow> task" where
  "new_task c u input sched =
     \<lparr>t_id = new_id c, poster_id = u, accepted_by_user_id = None, status = OPEN,
      title = trim (c_title input), description = trim (c_description input),
      category = c_category input, location_text = trim (c_location_text input),
      time_window = c_time_window input, scheduled_at = sched,
      price_cents = c_price_cents input, created_at = now c,
      accepted_at = None, completed_at = None, canceled_at = None\<rparr>"

definition createTask ::
    "platform \<Rightarrow> ctx \<Rightarrow> CreateTaskInput \<Rightarrow> db \<Rightarrow> task ActionResult \<times> db" where
  "createTask pf c input s =
     (case user c of
        None \<Rightarrow> (Failure ''Not authenticated'', s)
      | Some u \<Rightarrow>
          if \<not> (case select_profile s u of None \<Rightarrow> False | Some p \<Rightarrow> accepted_rules p) then
            (Failure ''You must accept the rules before posting'', s)
          else
            (case validateTaskInput pf (now c) input of
               Some validationError \<Rightarrow> (Failure validationError, s)
             | None \<Rightarrow>
                 (case scheduled_at_column pf input of
                    None \<Rightarrow> (Failure ''Failed to create task'', s)
                  | Some sched \<Rightarrow>
                      (case insert_task s u (new_task c u input sched) of
                         None \<Rightarrow> (Failure ''Failed to create task'', s)
                       | Some s' \<Rightarrow> (Success (new_task c u input sched), s')))))"

record UpdateTaskInput =
  u_title :: "jsstring option"
  u_description :: "jsstring option"
  u_price_cents :: "int option"

text \<open>A field of the input is written when it is truthy (a non-empty string) or, for the
  price, defined.\<close>

definition truthy :: "jsstring option \<Rightarrow> bool" where
  "truthy x = (case x of None \<Rightarrow> False | Some v \<Rightarrow> v \<noteq> [])"

definition longer_than :: "jsstring option \<Rightarrow> nat \<Rightarrow> bool" where
  "longer_than x n = (case x of None \<Rightarrow> False | Some v \<Rightarrow> v \<noteq> [] \<and> length v > n)"

definition update_patch :: "UpdateTaskInput \<Rightarrow> task \<Rightarrow> task" where
  "update_patch input t =
     (let t1 = (case u_title input of
                  None \<Rightarrow> t
                | Some v \<Rightarrow> if v \<noteq> [] then t\<lparr>title := trim v\<rparr> else t);
          t2 = (case u_description input of
                  None \<Rightarrow> t1
                | Some v \<Rightarrow> if v \<noteq> [] then t1\<lparr>description := trim v\<rparr> else t1)
      in (case u_price_cents input of None \<Rightarrow> t2 | Some p \<Rightarrow> t2\<lparr>price_cents := p\<rparr>))"

definition empty_patch :: "UpdateTaskInput \<Rightarrow> bool" where
  "empty_patch input \<longleftrightarrow>
     \<not> truthy (u_title input) \<and> \<not> truthy (u_description input) \<and> u_price_cents input = None"

text \<open>An update that sets no column writes nothing and returns no row, so \<^verbatim>\<open>.single()\<close>
  reports an error.\<close>

definition updateTask :: "ctx \<Rightarrow> uuid \<Rightarrow> UpdateTaskInput \<Rightarrow> db \<Rightarrow> task ActionResult \<times> db" where
  "updateTask c taskId input s =
     (case user c of
        None \<Rightarrow> (Failure ''Not authenticated'', s)
      | Some u \<Rightarrow>
          (case select_task s (user c) taskId of
             None \<Rightarrow> (Failure ''Task not found'', s)
           | Some t \<Rightarrow>
               if poster_id t \<noteq> u then
                 (Failure ''You can only edit your own tasks'', s)
               else if status t \<noteq> OPEN then
                 (Failure ''Can only edit tasks that are still open'', s)
               else if longer_than (u_title input) 80 then
                 (Failure ''Title must be 80 characters or less'', s)
               else if longer_than (u_description input) 1000 then
                 (Failure ''Description must be 1000 characters or less'', s)
               else if (case u_price_cents input of None \<Rightarrow> False
                        | Some p \<Rightarrow> p < 500 \<or> p > 50000) then
                 (Failure ''Price must be between $5 and $500'', s)
               else if empty_patch input then
                 (Failure ''Failed to update task'', s)
               else
                 (case update_task_single s u (\<lambda>r. t_id r = taskId) (update_patch input) of
                    None \<Rightarrow> (Failure ''Failed to update task'', s)
                  | Some (updatedTask, s') \<Rightarrow> (Success updatedTask, s'))))"

text \<open>
  \<^verbatim>\<open>acceptTask\<close>, \<^verbatim>\<open>cancelTask\<close> and \<^verbatim>\<open>completeTask\<close> each issue their reads, then one
  update of \<^verbatim>\<open>tasks\<close>, then one insert into \<^verbatim>\<open>messages\<close> whose outcome they do not
  inspect. The three phases are separate statements; the store may serve other requests
  between them. Each action is given with two store transformers \<open>i1\<close> and \<open>i2\<close> for what
  other requests write after its reads and after its update; the action run on its own has
  the identity for both.
\<close>

definition system_message :: "ctx \<Rightarrow> uuid \<Rightarrow> uuid \<Rightarrow> jsstring \<Rightarrow> message" where
  "system_message c u taskId txt =
     \<lparr>m_id = new_id c, m_task_id = taskId, sender_id = u, m_type = SYSTEM, body = txt,
      m_created_at = now c\<rparr>"

definition insert_ignoring_error :: "db \<Rightarrow> uuid \<Rightarrow> message \<Rightarrow> db" where
  "insert_ignoring_error s u m = (case insert_message s u m of None \<Rightarrow> s | Some s' \<Rightarrow> s')"

definition acceptTask_checks :: "ctx \<Rightarrow> uuid \<Rightarrow> db \<Rightarrow> string + uuid \<times> task" where
  "acceptTask_checks c taskId s =
     (case user c of
        None \<Rightarrow> Inl ''Not authenticated''
      | Some u \<Rightarrow>
          if \<not> (case select_profile s u of None \<Rightarrow> False | Some p \<Rightarrow> accepted_rules p) then
            Inl ''You must accept the rules before accepting tasks''
          else
            (case select_task s (user c) taskId of
               None \<Rightarrow> Inl ''Task not found''
             | Some t \<Rightarrow>
                 if poster_id t = u then Inl ''You cannot accept your own task''
                 else if status t \<noteq> OPEN then Inl ''This task is no longer available''
                 else if is_blocked s (Some u) (Some (poster_id t)) then
                   Inl ''Unable to accept this task''
                 else Inr (u, t)))"

definition acceptTask_update :: "ctx \<Rightarrow> uuid \<Rightarrow> uuid \<Rightarrow> db \<Rightarrow> db option" where
  "acceptTask_update c u taskId s =
     update_tasks s u (\<lambda>r. t_id r = taskId \<and> status r = OPEN)
       (\<lambda>r. r\<lparr>accepted_by_user_id := Some u, status := ACCEPTED, accepted_at := Some (now c)\<rparr>)"

definition accepted_text :: jsstring where
  "accepted_text = js ''Task accepted! You can now chat to coordinate details.''"

definition acceptTask_interleaved ::
    "ctx \<Rightarrow> uuid \<Rightarrow> (db \<Rightarrow> db) \<Rightarrow> (db \<Rightarrow> db) \<Rightarrow> db \<Rightarrow> unit ActionResult \<times> db" where
  "acceptTask_interleaved c taskId i1 i2 s =
     (case acceptTask_checks c taskId s of
        Inl e \<Rightarrow> (Failure e, s)
      | Inr (u, t) \<Rightarrow>
          (case acceptTask_update c u taskId (i1 s) of
             None \<Rightarrow> (Failure ''Failed to accept task. It may have already been taken.'', i1 s)
           | Some s' \<Rightarrow>
               (Success (),
                insert_ignoring_error (i2 s') u (system_message c u taskId accepted_text))))"

definition acceptTask :: "ctx \<Rightarrow> uuid \<Rightarrow> db \<Rightarrow> unit ActionResult \<times> db" where
  "acceptTask c taskId s = acceptTask_interleaved c taskId id id s"

definition cancelTask_checks :: "ctx \<Rightarrow> uuid \<Rightarrow> db \<Rightarrow> string + uuid \<times> task" where
  "cancelTask_checks c taskId s =
     (case user c of
        None \<Rightarrow> Inl ''Not authenticated''
      | Some u \<Rightarrow>
          (case select_task s (user c) taskId of
             None \<Rightarrow> Inl ''Task not found''
           | Some t \<Rightarrow>
               (let isPoster = (poster_id t = u);
                    isWorker = (accepted_by_user_id t = Some u)
                in if \<not> isPoster \<and> \<not> isWorker then Inl ''You cannot cancel this task''
                   else if status t = COMPLETE then Inl ''Cannot cancel a completed task''
                   else if status t = CANCELED then Inl ''Task is already canceled''
                   else if isWorker \<and> status t \<noteq> ACCEPTED then Inl ''Cannot cancel this task''
                   else Inr (u, t))))"

definition cancelTask_update :: "ctx \<Rightarrow> uuid \<Rightarrow> uuid \<Rightarrow> db \<Rightarrow> db option" where
  "cancelTask_update c u taskId s =
     update_tasks s u (\<lambda>r. t_id r = taskId)
       (\<lambda>r. r\<lparr>status := CANCELED, canceled_at := Some (now c)\<rparr>)"

text \<open>The role named in the message comes from the row the action read first.\<close>

definition canceled_text :: "bool \<Rightarrow> jsstring" where
  "canceled_text isPoster =
     js ''Task canceled by the '' @ (if isPoster then js ''poster'' else js ''worker'') @ js ''.''"

definition cancelTask_interleaved ::
    "ctx \<Rightarrow> uuid \<Rightarrow> (db \<Rightarrow> db) \<Rightarrow> (db \<Rightarrow> db) \<Rightarrow> db \<Rightarrow> unit ActionResult \<times> db" where
  "cancelTask_interleaved c taskId i1 i2 s =
     (case cancelTask_checks c taskId s of
        Inl e \<Rightarrow> (Failure e, s)
      | Inr (u, t) \<Rightarrow>
          (case cancelTask_update c u taskId (i1 s) of
             None \<Rightarrow> (Failure ''Failed to cancel task'', i1 s)
           | Some s' \<Rightarrow>
               (Success (),
                insert_ignoring_error (i2 s') u
                  (system_message c u taskId (canceled_text (poster_id t = u))))))"

definition cancelTask :: "ctx \<Rightarrow> uuid \<Rightarrow> db \<Rightarrow> unit ActionResult \<times> db" where
  "cancelTask c taskId s = cancelTask_interleaved c taskId id id s"

definition completeTask_checks :: "ctx \<Rightarrow> uuid \<Rightarrow> db \<Rightarrow> string + uuid \<times> task" where
  "completeTask_checks c taskId s =
     (case user c of
        None \<Rightarrow> Inl ''Not authenticated''
      | Some u \<Rightarrow>
          (case select_task s (user c) taskId of
             None \<Rightarrow> Inl ''Task not found''
           | Some t \<Rightarrow>
               if poster_id t \<noteq> u then Inl ''Only the task poster can mark it complete''
               else if status t \<noteq> ACCEPTED then
                 Inl ''Task must be accepted before it can be completed''
               else Inr (u, t)))"

definition completeTask_update :: "ctx \<Rightarrow> uuid \<Rightarrow> uuid \<Rightarrow> db \<Rightarrow> db option" where
  "completeTask_update c u taskId s =
     update_tasks s u (\<lambda>r. t_id r = taskId)
       (\<lambda>r. r\<lparr>status := COMPLETE, completed_at := Some (now c)\<rparr>)"

definition completed_text :: jsstring where
  "completed_text =
     js ''Task marked as complete! '' @ [0xD83C, 0xDF89] @ js '' Don'' @ [0x27] @
     js ''t forget to rate each other.''"

definition completeTask_interleaved ::
    "ctx \<Rightarrow> uuid \<Rightarrow> (db \<Rightarrow> db) \<Rightarrow> (db \<Rightarrow> db) \<Rightarrow> db \<Rightarrow> unit ActionResult \<times> db" where
  "completeTask_interleaved c taskId i1 i2 s =
     (case completeTask_checks c taskId s of
        Inl e \<Rightarrow> (Failure e, s)
      | Inr (u, t) \<Rightarrow>
          (case completeTask_update c u taskId (i1 s) of
             None \<Rightarrow> (Failure ''Failed to complete task'', i1 s)
           | Some s' \<Rightarrow>
               (Success (),
                insert_ignoring_error (i2 s') u (system_message c u taskId completed_text))))"

definition completeTask :: "ctx \<Rightarrow> uuid \<Rightarrow> db \<Rightarrow> unit ActionResult \<times> db" where
  "completeTask c taskId s = completeTask_interleaved c taskId id id s"

subsection \<open>The task feed\<close>

datatype SortOption = newest | highest_pay

datatype 'a choice = Any | Only 'a

text \<open>\<^verbatim>\<open>Partial<TaskFilters>\<close>: every field may be absent; an absent \<^verbatim>\<open>filters\<close> argument
  behaves as the record with no field.\<close>

record TaskFilters =
  f_category :: "task_category choice option"
  f_timeWindow :: "time_window choice option"
  f_minPrice :: "int option"
  f_sort :: "SortOption option"

definition poster_embed :: "db \<Rightarrow> task \<Rightarrow> profile option" where
  "poster_embed s t = find (\<lambda>p. p_id p = poster_id t) (profiles s)"

definition feed_filter :: "TaskFilters \<Rightarrow> task \<Rightarrow> bool" where
  "feed_filter f t \<longleftrightarrow>
     (status t = OPEN \<or> status t = ACCEPTED) \<and>
     (case f_category f of Some (Only k) \<Rightarrow> category t = k | _ \<Rightarrow> True) \<and>
     (case f_timeWindow f of Some (Only w) \<Rightarrow> time_window t = w | _ \<Rightarrow> True) \<and>
     (case f_minPrice f of Some p \<Rightarrow> (if p \<noteq> 0 then price_cents t \<ge> p else True) | None \<Rightarrow> True)"

text \<open>\<^verbatim>\<open>ORDER BY ... DESC\<close> is rendered by a sort on the negated key; rows with equal keys
  keep their table order.\<close>

definition feed_order :: "TaskFilters \<Rightarrow> task list \<Rightarrow> task list" where
  "feed_order f ts =
     (if f_sort f = Some highest_pay then sort_key (\<lambda>t. - price_cents t) ts
      else sort_key (\<lambda>t. - created_at t) ts)"

definition getTasks :: "ctx \<Rightarrow> TaskFilters \<Rightarrow> db \<Rightarrow> (task \<times> profile option) list ActionResult" where
  "getTasks c f s =
     Success (map (\<lambda>t. (t, poster_embed s t))
                (take 50 (feed_order f (filter (feed_filter f) (visible_tasks s (user c))))))"

subsection \<open>Messages\<close>

definition text_message :: "ctx \<Rightarrow> uuid \<Rightarrow> uuid \<Rightarrow> jsstring \<Rightarrow> message" where
  "text_message c u taskId txt =
     \<lparr>m_id = new_id c, m_task_id = taskId, sender_id = u, m_type = TEXT, body = txt,
      m_created_at = now c\<rparr>"

definition sendMessage :: "ctx \<Rightarrow> uuid \<Rightarrow> jsstring \<Rightarrow> db \<Rightarrow> message ActionResult \<times> db" where
  "sendMessage c taskId txt s =
     (case user c of
        None \<Rightarrow> (Failure ''Not authenticated'', s)
      | Some u \<Rightarrow>
          (let trimmedBody = trim txt
           in if trimmedBody = [] then (Failure ''Message cannot be empty'', s)
              else if length trimmedBody > 2000 then
                (Failure ''Message is too long (max 2000 characters)'', s)
              else
                (case select_task s (user c) taskId of
                   None \<Rightarrow> (Failure ''Task not found'', s)
                 | Some t \<Rightarrow>
                     (let isPoster = (poster_id t = u);
                          isWorker = (accepted_by_user_id t = Some u)
                      in if \<not> isPoster \<and> \<not> isWorker then
                           (Failure ''You are not a participant in this task'', s)
                         else if status t = OPEN then
                           (Failure ''Chat is only available after a task is accepted'', s)
                         else if status t = CANCELED then
                           (Failure ''Cannot send messages in a canceled task'', s)
                         else if is_blocked s (Some (poster_id t)) (accepted_by_user_id t) then
                           (Failure ''Unable to send message'', s)
                         else
                           (case insert_message_returning s u
                                   (text_message c u taskId trimmedBody) of
                              None \<Rightarrow> (Failure ''Failed to send message'', s)
                            | Some s' \<Rightarrow>
                                (Success (text_message c u taskId trimmedBody), s'))))))"

definition sender_embed :: "db \<Rightarrow> message \<Rightarrow> profile option" where
  "sender_embed s m = find (\<lambda>p. p_id p = sender_id m) (profiles s)"

definition getMessages :: "ctx \<Rightarrow> uuid \<Rightarrow> db \<Rightarrow> (message \<times> profile option) list ActionResult" where
  "getMessages c taskId s =
     (case user c of
        None \<Rightarrow> Failure ''Not authenticated''
      | Some u \<Rightarrow>
          (case select_task s (user c) taskId of
             None \<Rightarrow> Failure ''Task not found''
           | Some t \<Rightarrow>
               (let isPoster = (poster_id t = u);
                    isWorker = (accepted_by_user_id t = Some u)
                in if \<not> isPoster \<and> \<not> isWorker then
                     Failure ''You are not a participant in this task''
                   else
                     Success (map (\<lambda>m. (m, sender_embed s m))
                       (sort_key m_created_at
                          (filter (\<lambda>m. messages_read s u m \<and> m_task_id m = taskId)
                             (messages s)))))))"

subsection \<open>Ratings\<close>

record SubmitRatingInput =
  i_taskId :: uuid
  i_stars :: int
  i_comment :: "jsstring option"

definition new_rating :: "ctx \<Rightarrow> uuid \<Rightarrow> uuid \<Rightarrow> SubmitRatingInput \<Rightarrow> rating" where
  "new_rating c u rateeId input =
     \<lparr>r_id = new_id c, r_task_id = i_taskId input, rater_id = u, ratee_id = rateeId,
      stars = i_stars input,
      comment = (case i_comment input of
                   None \<Rightarrow> None
                 | Some v \<Rightarrow> if trim v = [] then None else Some (trim v)),
      r_created_at = now c\<rparr>"

text \<open>\<^verbatim>\<open>stars\<close> is an integer here; the action turns away any other number first.\<close>

definition submitRating :: "ctx \<Rightarrow> SubmitRatingInput \<Rightarrow> db \<Rightarrow> rating ActionResult \<times> db" where
  "submitRating c input s =
     (case user c of
        None \<Rightarrow> (Failure ''Not authenticated'', s)
      | Some u \<Rightarrow>
          if i_stars input < 1 \<or> i_stars input > 5 then
            (Failure ''Rating must be 1-5 stars'', s)
          else if longer_than (i_comment input) 500 then
            (Failure ''Comment must be 500 characters or less'', s)
          else
            (case select_task s (user c) (i_taskId input) of
               None \<Rightarrow> (Failure ''Task not found'', s)
             | Some t \<Rightarrow>
                 if status t \<noteq> COMPLETE then (Failure ''Can only rate completed tasks'', s)
                 else
                   (let isPoster = (poster_id t = u);
                        isWorker = (accepted_by_user_id t = Some u)
                    in if \<not> isPoster \<and> \<not> isWorker then
                         (Failure ''You are not a participant in this task'', s)
                       else
                         (case (if isPoster then accepted_by_user_id t
                                else Some (poster_id t)) of
                            None \<Rightarrow> (Failure ''No one to rate'', s)
                          | Some rateeId \<Rightarrow>
                              (case single (filter (\<lambda>q. r_task_id q = i_taskId input
                                                        \<and> rater_id q = u) (ratings s)) of
                                 Some existingRating \<Rightarrow>
                                   (Failure ''You have already rated this task'', s)
                               | None \<Rightarrow>
                                   (case insert_rating s u (new_rating c u rateeId input) of
                                      None \<Rightarrow> (Failure ''Failed to submit rating'', s)
                                    | Some s' \<Rightarrow>
                                        (Success (new_rating c u rateeId input), s')))))))"

subsection \<open>Blocks\<close>

definition blockUser :: "ctx \<Rightarrow> uuid \<Rightarrow> db \<Rightarrow> unit ActionResult \<times> db" where
  "blockUser c blockedId s =
     (case user c of
        None \<Rightarrow> (Failure ''Not authenticated'', s)
      | Some u \<Rightarrow>
          if u = blockedId then (Failure ''You cannot block yourself'', s)
          else
            (case single (filter (\<lambda>b. blocker_id b = u \<and> blocked_id b = blockedId)
                            (filter (blocks_read u) (blocks s))) of
               Some existingBlock \<Rightarrow> (Failure ''User is already blocked'', s)
             | None \<Rightarrow>
                 (case select_profile s blockedId of
                    None \<Rightarrow> (Failure ''User not found'', s)
                  | Some blockedUser \<Rightarrow>
                      (case insert_block s u
                              \<lparr>b_id = new_id c, blocker_id = u, blocked_id = blockedId,
                               b_created_at = now c\<rparr> of
                         None \<Rightarrow> (Failure ''Failed to block user'', s)
                       | Some s' \<Rightarrow> (Success (), s')))))"

subsection \<open>Sample data\<close>

text \<open>Three members who have accepted the rules (7, 8 and 9) and one who has not (6); user 7
  is the poster of every sample task.\<close>

definition demo_profile :: "uuid \<Rightarrow> string \<Rightarrow> bool \<Rightarrow> profile" where
  "demo_profile i name ok =
     \<lparr>p_id = i, email = js name @ js ''@uci.edu'', display_name = None, accepted_rules = ok,
      p_created_at = 0\<rparr>"

definition demo_task ::
    "uuid \<Rightarrow> task_status \<Rightarrow> uuid option \<Rightarrow> int \<Rightarrow> timestamp \<Rightarrow> task" where
  "demo_task i st w price at =
     \<lparr>t_id = i, poster_id = 7, accepted_by_user_id = w, status = st,
      title = js ''Pickup'', description = js ''Collect a parcel'', category = ERRAND,
      location_text = js ''Library'', time_window = NOW, scheduled_at = None,
      price_cents = price, created_at = at,
      accepted_at = (case w of None \<Rightarrow> None | Some _ \<Rightarrow> Some (at + 1)),
      completed_at = (if st = COMPLETE then Some (at + 2) else None),
      canceled_at = (if st = CANCELED then Some (at + 2) else None)\<rparr>"

definition demo_db :: "task list \<Rightarrow> message list \<Rightarrow> block list \<Rightarrow> db" where
  "demo_db ts ms bs =
     \<lparr>profiles = [demo_profile 7 ''pat'' True, demo_profile 8 ''wen'' True,
                  demo_profile 9 ''vic'' True, demo_profile 6 ''ned'' False],
      tasks = ts, messages = ms, ratings = [], blocks = bs\<rparr>"

definition feed_db :: db where
  "feed_db = demo_db [demo_task 10 OPEN None 1000 10, demo_task 11 ACCEPTED (Some 8) 3000 20,
                      demo_task 12 COMPLETE (Some 8) 5000 30, demo_task 13 CANCELED None 700 40,
                      demo_task 14 OPEN None 2000 50] [] []"

text \<open>A store with more matching tasks than one page of the feed holds: 51 open tasks priced
  100 to 150 cents, and a completed and a canceled task that pay more than all of them.\<close>

definition crowded_db :: db where
  "crowded_db =
     demo_db (demo_task 12 COMPLETE (Some 8) 9000 30 # demo_task 13 CANCELED None 8000 40 #
              map (\<lambda>i. demo_task i OPEN None (int i) 50) [100..<151]) [] []"

definition open_db :: db where
  "open_db = demo_db [demo_task 10 OPEN None 1000 10] [] []"

definition edit_db :: db where
  "edit_db = demo_db [demo_task 10 OPEN None 1000 10, demo_task 11 ACCEPTED (Some 8) 3000 20] [] []"

definition accepted_db :: db where
  "accepted_db = demo_db [demo_task 11 ACCEPTED (Some 8) 3000 20] [] []"

text \<open>The worker has blocked the poster after accepting.\<close>

definition blocked_db :: db where
  "blocked_db = demo_db [demo_task 11 ACCEPTED (Some 8) 3000 20] []
                  [\<lparr>b_id = 60, blocker_id = 8, blocked_id = 7, b_created_at = 30\<rparr>]"

definition complete_db :: db where
  "complete_db = demo_db [demo_task 12 COMPLETE (Some 8) 5000 30] [] []"

text \<open>The store after the poster has canceled the open task at time 100.\<close>

definition canceled_db :: db where
  "canceled_db = demo_db [(demo_task 10 OPEN None 1000 10)\<lparr>status := CANCELED, canceled_at := Some 100\<rparr>]
     [system_message \<lparr>user = Some 7, now = 100, new_id = 50\<rparr> 7 10 (canceled_text True)] []"

text \<open>A platform that reads one ISO timestamp as both real readers do, lets the store also
  read its special input \<^verbatim>\<open>epoch\<close> (which \<^verbatim>\<open>Date\<close> does not parse), and reads nothing
  else.\<close>

definition demo_platform :: platform where
  "demo_platform =
     \<lparr>date_parse = (\<lambda>raw. if raw = js ''2030-01-01T00:00:00.000Z'' then Some 1893456000000
                          else None),
      timestamptz_in = (\<lambda>raw. if raw = js ''2030-01-01T00:00:00.000Z'' then Some 1893456000000
                              else if raw = js ''epoch'' then Some 0 else None)\<rparr>"

definition pickup :: "time_window \<Rightarrow> jsstring option \<Rightarrow> CreateTaskInput" where
  "pickup w sched =
     \<lparr>c_title = js ''Pickup'', c_description = js ''Collect a parcel'', c_category = ERRAND,
      c_location_text = js '' Library'', c_time_window = w, c_scheduled_at = sched,
      c_price_cents = 1000\<rparr>"

text \<open>The accepted task canceled by the poster, the worker's block of the poster in place,
  and no system message.\<close>

definition unannounced_db :: db where
  "unannounced_db =
     demo_db [(demo_task 11 ACCEPTED (Some 8) 3000 20)
                \<lparr>status := CANCELED, canceled_at := Some 100\<rparr>] []
       [\<lparr>b_id = 60, blocker_id = 8, blocked_id = 7, b_created_at = 101\<rparr>]"

subsection \<open>Predicates of the properties\<close>

text \<open>Two versions of a task row that differ at most in title, description and price.\<close>

definition terms_only :: "task \<Rightarrow> task \<Rightarrow> bool" where
  "terms_only t t' \<longleftrightarrow>
     t_id t' = t_id t \<and> poster_id t' = poster_id t \<and>
     accepted_by_user_id t' = accepted_by_user_id t \<and> status t' = status t \<and>
     category t' = category t \<and> location_text t' = location_text t \<and>
     time_window t' = time_window t \<and> scheduled_at t' = scheduled_at t \<and>
     created_at t' = created_at t \<and> accepted_at t' = accepted_at t \<and>
     completed_at t' = completed_at t \<and> canceled_at t' = canceled_at t"

text \<open>What the uniqueness constraint of \<^verbatim>\<open>ratings\<close> keeps distinct.\<close>

definition rating_key :: "rating \<Rightarrow> uuid \<times> uuid" where
  "rating_key q = (r_task_id q, rater_id q)"

text \<open>Sequences of task actions.\<close>

datatype action =
    Create ctx CreateTaskInput
  | Update ctx uuid UpdateTaskInput
  | Accept ctx uuid
  | Cancel ctx uuid
  | Complete ctx uuid

fun perform :: "platform \<Rightarrow> action \<Rightarrow> db \<Rightarrow> db" where
  "perform pf (Create c input) s = snd (createTask pf c input s)"
| "perform pf (Update c i input) s = snd (updateTask c i input s)"
| "perform pf (Accept c i) s = snd (acceptTask c i s)"
| "perform pf (Cancel c i) s = snd (cancelTask c i s)"
| "perform pf (Complete c i) s = snd (completeTask c i s)"

definition run :: "platform \<Rightarrow> action list \<Rightarrow> db \<Rightarrow> db" where
  "run pf acts s = fold (perform pf) acts s"

definition schedule_rule :: "task \<Rightarrow> bool" where
  "schedule_rule t \<longleftrightarrow> (scheduled_at t \<noteq> None) = (time_window t = SCHEDULED)"

text \<open>One system message of the task has been appended to \<^verbatim>\<open>messages\<close>.\<close>

definition one_system_message :: "db \<Rightarrow> db \<Rightarrow> uuid \<Rightarrow> bool" where
  "one_system_message s s' taskId \<longleftrightarrow>
     length (messages s') = Suc (length (messages s)) \<and>
     butlast (messages s') = messages s \<and>
     m_type (last (messages s')) = SYSTEM \<and> m_task_id (last (messages s')) = taskId"

text \<open>Between two stores, either the status of a task row has changed and one system
  message of the task has been appended, or neither table has changed.\<close>

definition as_a_unit :: "db \<Rightarrow> db \<Rightarrow> uuid \<Rightarrow> bool" where
  "as_a_unit s s' taskId \<longleftrightarrow>
     (tasks s' = tasks s \<and> messages s' = messages s) \<or>
     (map status (tasks s') \<noteq> map status (tasks s) \<and> one_system_message s s' taskId)"

section \<open>Properties\<close>

subsection \<open>Strings\<close>

lemma char_length_le: "char_length s \<le> length s"
  by (induction s rule: char_length.induct) auto

lemma char_length_pos: "s \<noteq> [] \<Longrightarrow> 1 \<le> char_length s"
  by (induction s rule: char_length.induct) auto

lemmas demo_defs = demo_db_def demo_task_def demo_profile_def

lemmas string_defs = js_def trim_def isWhiteSpace_def high_surrogate_def low_surrogate_def

lemmas store_defs = select_task_def select_profile_def single_def visible_tasks_def
  tasks_read_def is_blocked_def rules_accepted_def has_profile_def has_task_def
  task_constraints_def message_constraints_def rating_constraints_def block_constraints_def
  tasks_insert_def tasks_update_using_def tasks_update_check_def messages_read_def
  messages_insert_def ratings_insert_def blocks_read_def blocks_insert_def insert_task_def
  message_admitted_def insert_message_def insert_message_returning_def insert_rating_def
  insert_block_def update_target_def update_admitted_def update_tasks_def
  update_task_single_def

subsection \<open>Statements\<close>

lemma single_Some: "single xs = Some x \<longleftrightarrow> xs = [x]"
  by (cases xs; cases "tl xs") (auto simp: single_def split: list.splits)

lemma filter_singleton:
  assumes "filter P xs = [x]"
  shows "x \<in> set xs" "P x" "\<And>y. y \<in> set xs \<Longrightarrow> P y \<Longrightarrow> y = x"
proof -
  have m: "\<And>y. y \<in> set (filter P xs) \<longleftrightarrow> y = x" unfolding assms by simp
  from m[of x] show "x \<in> set xs" "P x" by simp_all
  fix y assume "y \<in> set xs" "P y"
  with m[of y] show "y = x" by simp
qed

lemma select_task_SomeD:
  assumes "select_task s (Some u) i = Some t"
  shows "t \<in> set (tasks s)" "tasks_read s u t" "t_id t = i"
    "\<And>r. r \<in> set (tasks s) \<Longrightarrow> tasks_read s u r \<Longrightarrow> t_id r = i \<Longrightarrow> r = t"
proof -
  from assms have f: "filter (\<lambda>t. t_id t = i) (filter (tasks_read s u) (tasks s)) = [t]"
    by (simp add: select_task_def visible_tasks_def single_Some)
  from filter_singleton(1)[OF f] show "t \<in> set (tasks s)" "tasks_read s u t" by simp_all
  from filter_singleton(2)[OF f] show "t_id t = i" .
  fix r assume "r \<in> set (tasks s)" "tasks_read s u r" "t_id r = i"
  then show "r = t" using filter_singleton(3)[OF f, of r] by simp
qed

lemma update_tasks_result:
  "update_tasks s u cond upd = Some s' \<Longrightarrow>
     s' = s\<lparr>tasks := map (\<lambda>t. if update_target s u cond t then upd t else t) (tasks s)\<rparr>"
  by (simp add: update_tasks_def split: if_splits)

lemma update_task_single_result:
  "update_task_single s u cond upd = Some (t', s') \<Longrightarrow>
     s' = s\<lparr>tasks := map (\<lambda>t. if update_target s u cond t then upd t else t) (tasks s)\<rparr>"
  by (auto simp: update_task_single_def split: list.splits option.splits
      dest: update_tasks_result)

lemma update_tasks_Some:
  assumes "\<And>r. r \<in> set (tasks s) \<Longrightarrow> update_target s u cond r \<Longrightarrow> update_admitted s u (upd r)"
  shows "\<exists>s'. update_tasks s u cond upd = Some s'"
  using assms by (simp add: update_tasks_def list_all_iff)

subsection \<open>The task feed\<close>

lemma feed_order_set: "set (feed_order f ts) = set ts"
  by (simp add: feed_order_def)

lemma feed_order_sorted:
  "sorted_wrt (\<lambda>a b. (if f_sort f = Some highest_pay then price_cents b \<le> price_cents a
                       else created_at b \<le> created_at a)) (feed_order f ts)"
proof (cases "f_sort f = Some highest_pay")
  case True
  have "sorted (map (\<lambda>t. - price_cents t) (sort_key (\<lambda>t. - price_cents t) ts))"
    by (rule sorted_sort_key)
  then show ?thesis using True by (simp add: feed_order_def sorted_map)
next
  case False
  have "sorted (map (\<lambda>t. - created_at t) (sort_key (\<lambda>t. - created_at t) ts))"
    by (rule sorted_sort_key)
  then show ?thesis using False by (simp add: feed_order_def sorted_map)
qed

lemma count_list_insort_key: "count_list (insort_key k x xs) y = count_list (x # xs) y"
  by (induction xs) auto

lemma count_list_sort_key: "count_list (sort_key k xs) y = count_list xs y"
  by (induction xs) (simp_all add: count_list_insort_key)

lemma count_list_feed_order: "count_list (feed_order f ts) y = count_list ts y"
  by (simp add: feed_order_def count_list_sort_key)

lemma count_list_take_drop:
  "count_list (take n xs) y + count_list (drop n xs) y = count_list xs y"
proof -
  have "count_list (take n xs @ drop n xs) y = count_list xs y" by simp
  then show ?thesis by (simp only: count_list_append)
qed

lemma take_over_drop:
  assumes "sorted_wrt R xs" "a \<in> set (take n xs)" "b \<in> set (drop n xs)"
  shows "R a b"
proof -
  from assms(1) have "sorted_wrt R (take n xs @ drop n xs)" by simp
  with assms(2,3) show ?thesis unfolding sorted_wrt_append by blast
qed

lemma demo_task_fields:
  "status (demo_task i st w p a) = st" "price_cents (demo_task i st w p a) = p"
  "created_at (demo_task i st w p a) = a" "poster_id (demo_task i st w p a) = 7"
  "accepted_by_user_id (demo_task i st w p a) = w" "t_id (demo_task i st w p a) = i"
  by (simp_all add: demo_task_def)

lemma demo_task_eq_iff:
  "demo_task i st w p a = demo_task j st' w' p' a' \<longleftrightarrow>
     i = j \<and> st = st' \<and> w = w' \<and> p = p' \<and> a = a'"
  by (auto simp: demo_task_def)

text \<open>The feed of the small sample store, for a member who is neither poster nor worker: the
  completed task 12 and the canceled task 13 are left out, the rest come by descending price.\<close>

lemma feed_db_rows:
  "getTasks \<lparr>user = Some 9, now = 100, new_id = 0\<rparr>
     \<lparr>f_category = None, f_timeWindow = None, f_minPrice = None, f_sort = Some highest_pay\<rparr>
     feed_db =
   Success (map (\<lambda>t. (t, Some (demo_profile 7 ''pat'' True)))
              [demo_task 11 ACCEPTED (Some 8) 3000 20, demo_task 14 OPEN None 2000 50,
               demo_task 10 OPEN None 1000 10])"
  by (simp add: getTasks_def feed_order_def feed_filter_def visible_tasks_def tasks_read_def
        is_blocked_def poster_embed_def feed_db_def demo_db_def demo_task_fields demo_profile_def)

text \<open>The feed of the crowded store: the 51 open tasks match, the 50 best paid are returned.\<close>

lemma crowded_visible:
  "filter (feed_filter \<lparr>f_category = None, f_timeWindow = None, f_minPrice = None,
                        f_sort = Some highest_pay\<rparr>)
     (visible_tasks crowded_db (Some 9)) = map (\<lambda>i. demo_task i OPEN None (int i) 50) [100..<151]"
  by (simp add: feed_filter_def visible_tasks_def tasks_read_def is_blocked_def crowded_db_def
        demo_db_def demo_task_fields)

lemma crowded_feed:
  "feed_order \<lparr>f_category = None, f_timeWindow = None, f_minPrice = None,
               f_sort = Some highest_pay\<rparr>
     (map (\<lambda>i. demo_task i OPEN None (int i) 50) [100..<151]) =
   map (\<lambda>i. demo_task i OPEN None (int i) 50) (rev [100..<151])"
  by (simp add: feed_order_def demo_task_fields)

lemma crowded_poster:
  "poster_embed crowded_db (demo_task i st w p a) = Some (demo_profile 7 ''pat'' True)"
  by (simp add: poster_embed_def crowded_db_def demo_db_def demo_task_fields demo_profile_def)

lemma crowded_getTasks:
  "getTasks \<lparr>user = Some 9, now = 100, new_id = 0\<rparr>
     \<lparr>f_category = None, f_timeWindow = None, f_minPrice = None, f_sort = Some highest_pay\<rparr>
     crowded_db =
   Success (map (\<lambda>i. (demo_task i OPEN None (int i) 50, Some (demo_profile 7 ''pat'' True)))
              (rev [101..<151]))"
  apply (simp only: getTasks_def ctx.select_convs crowded_visible crowded_feed)
  apply (simp add: crowded_poster)
  done

text \<open>
  C10. \<^verbatim>\<open>getTasks\<close> always answers with a list of rows, and the rows are determined by the
  store. Call \<^emph>\<open>matching\<close> the tasks of the store that the caller may read and that pass the
  feed's filter. Then:
  \<^item> every row is a task whose status is \<^verbatim>\<open>OPEN\<close> or \<^verbatim>\<open>ACCEPTED\<close> (so no \<^verbatim>\<open>COMPLETE\<close> or
    \<^verbatim>\<open>CANCELED\<close> task appears, whatever the filters);
  \<^item> there are at most 50 rows, and exactly 50 or all the matching tasks, whichever is fewer;
  \<^item> the rows are in descending order of price when the sort is \<^verbatim>\<open>highest_pay\<close>, in descending
    order of creation time otherwise;
  \<^item> every row is a task the caller may read in the store, paired with its poster's profile;
  \<^item> the rows and the tasks left out (\<open>rest\<close>) are together exactly the matching tasks, each
    as often as it matches;
  \<^item> no task left out comes before a returned one in the order: the limit keeps the head of
    the sorted list.
\<close>

theorem getTasks_feed:
  "\<exists>rows rest. getTasks c f s = Success rows \<and>
     list_all (\<lambda>r. status (fst r) = OPEN \<or> status (fst r) = ACCEPTED) rows \<and>
     length rows \<le> 50 \<and>
     length rows = min 50 (length (filter (feed_filter f) (visible_tasks s (user c)))) \<and>
     sorted_wrt (\<lambda>a b. (if f_sort f = Some highest_pay then price_cents b \<le> price_cents a
                         else created_at b \<le> created_at a)) (map fst rows) \<and>
     set (map fst rows) \<subseteq> set (visible_tasks s (user c)) \<and>
     list_all (\<lambda>r. snd r = poster_embed s (fst r)) rows \<and>
     (\<forall>t. count_list (map fst rows) t + count_list rest t =
          count_list (filter (feed_filter f) (visible_tasks s (user c))) t) \<and>
     (\<forall>a \<in> set (map fst rows). \<forall>b \<in> set rest.
        (if f_sort f = Some highest_pay then price_cents b \<le> price_cents a
         else created_at b \<le> created_at a))"
proof -
  let ?cand = "filter (feed_filter f) (visible_tasks s (user c))"
  let ?all = "feed_order f ?cand"
  let ?ts = "take 50 ?all"
  let ?rows = "map (\<lambda>t. (t, poster_embed s t)) ?ts"
  have fst_rows: "map fst ?rows = ?ts" by (simp add: comp_def)
  have mem: "t \<in> set ?cand" if "t \<in> set ?ts" for t
  proof -
    from that have "t \<in> set ?all" by (rule in_set_takeD)
    then show ?thesis by (simp only: feed_order_set)
  qed
  have st: "list_all (\<lambda>r. status (fst r) = OPEN \<or> status (fst r) = ACCEPTED) ?rows"
    unfolding list_all_iff
  proof
    fix r assume "r \<in> set ?rows"
    then have "fst r \<in> set ?ts" by auto
    then have "fst r \<in> set ?cand" by (rule mem)
    then have "feed_filter f (fst r)" by simp
    then show "status (fst r) = OPEN \<or> status (fst r) = ACCEPTED" by (simp add: feed_filter_def)
  qed
  have len: "length ?rows \<le> 50" by simp
  have n: "length ?rows = min 50 (length ?cand)"
    by (simp add: feed_order_def min.commute)
  have so: "sorted_wrt (\<lambda>a b. (if f_sort f = Some highest_pay then price_cents b \<le> price_cents a
                         else created_at b \<le> created_at a)) (map fst ?rows)"
    unfolding fst_rows by (rule sorted_wrt_take) (rule feed_order_sorted)
  have sub: "set (map fst ?rows) \<subseteq> set (visible_tasks s (user c))"
    unfolding fst_rows
  proof
    fix t assume "t \<in> set ?ts"
    then have "t \<in> set ?cand" by (rule mem)
    then show "t \<in> set (visible_tasks s (user c))" by simp
  qed
  have emb: "list_all (\<lambda>r. snd r = poster_embed s (fst r)) ?rows"
    by (simp add: list_all_iff)
  have cnt: "\<forall>t. count_list (map fst ?rows) t + count_list (drop 50 ?all) t = count_list ?cand t"
    unfolding fst_rows by (simp only: count_list_take_drop count_list_feed_order) simp
  have top: "\<forall>a \<in> set (map fst ?rows). \<forall>b \<in> set (drop 50 ?all).
               (if f_sort f = Some highest_pay then price_cents b \<le> price_cents a
                else created_at b \<le> created_at a)"
    unfolding fst_rows using take_over_drop[OF feed_order_sorted[of f ?cand]] by blast
  have g: "getTasks c f s = Success ?rows" by (simp add: getTasks_def)
  from g st len n so sub emb cnt top show ?thesis by blast
qed

text \<open>On the crowded store, for member 9 and the \<^verbatim>\<open>highest_pay\<close> sort: the 50 rows are the tasks
  150 down to 101, all open and with the poster's profile; task 100, the cheapest, is among
  the tasks left out, and no row pays less than it. The completed and the canceled task,
  which pay most, are not in the feed.\<close>

theorem getTasks_feed_witness:
  "\<exists>rows rest. getTasks \<lparr>user = Some 9, now = 100, new_id = 0\<rparr>
          \<lparr>f_category = None, f_timeWindow = None, f_minPrice = None, f_sort = Some highest_pay\<rparr>
          crowded_db = Success rows \<and>
     map (\<lambda>r. t_id (fst r)) rows = rev [101..<151] \<and>
     length rows = 50 \<and>
     list_all (\<lambda>r. status (fst r) = OPEN \<and> snd r = Some (demo_profile 7 ''pat'' True)) rows \<and>
     demo_task 100 OPEN None 100 50 \<in> set rest \<and>
     list_all (\<lambda>r. price_cents (demo_task 100 OPEN None 100 50) \<le> price_cents (fst r)) rows"
proof -
  let ?c = "\<lparr>user = Some 9, now = 100, new_id = 0\<rparr>"
  let ?f = "\<lparr>f_category = None, f_timeWindow = None, f_minPrice = None, f_sort = Some highest_pay\<rparr>"
  let ?t = "demo_task 100 OPEN None 100 50"
  from getTasks_feed [of ?c ?f crowded_db] obtain rows rest where
    g: "getTasks ?c ?f crowded_db = Success rows" and
    cnt: "\<forall>t. count_list (map fst rows) t + count_list rest t =
            count_list (filter (feed_filter ?f) (visible_tasks crowded_db (user ?c))) t" and
    top: "\<forall>a \<in> set (map fst rows). \<forall>b \<in> set rest.
            (if f_sort ?f = Some highest_pay then price_cents b \<le> price_cents a
             else created_at b \<le> created_at a)"
    by (elim exE conjE)
  from g have rows: "rows = map (\<lambda>i. (demo_task i OPEN None (int i) 50,
                                      Some (demo_profile 7 ''pat'' True))) (rev [101..<151])"
    by (simp only: crowded_getTasks ActionResult.inject)
  from cnt have "count_list (map fst rows) ?t + count_list rest ?t =
      count_list (filter (feed_filter ?f) (visible_tasks crowded_db (Some 9))) ?t"
    by simp
  then have "count_list rest ?t = 1"
    unfolding rows crowded_visible by (simp add: demo_task_eq_iff)
  then have mem: "?t \<in> set rest"
    using count_list_0_iff [of rest ?t] by auto
  from top mem have "\<forall>a \<in> set (map fst rows). price_cents ?t \<le> price_cents a"
    by simp
  then have low: "list_all (\<lambda>r. price_cents ?t \<le> price_cents (fst r)) rows"
    by (simp add: list_all_iff)
  have ids: "map (\<lambda>r. t_id (fst r)) rows = rev [101..<151]"
    unfolding rows by (simp add: demo_task_fields)
  have len: "length rows = 50" unfolding rows by simp
  have emb: "list_all (\<lambda>r. status (fst r) = OPEN \<and> snd r = Some (demo_profile 7 ''pat'' True)) rows"
    unfolding rows by (simp add: demo_task_fields)
  from g ids len emb mem low show ?thesis by blast
qed

subsection \<open>Editing a task\<close>

lemma terms_only_refl: "terms_only t t"
  by (simp add: terms_only_def)

lemma terms_only_patch: "terms_only t (update_patch input t)"
  by (simp add: terms_only_def update_patch_def Let_def split: option.splits)

lemma terms_only_map:
  "list_all2 terms_only ts (map (\<lambda>t. if P t then update_patch input t else t) ts)"
  by (simp add: list_all2_map2 list_all2_same terms_only_refl terms_only_patch)

text \<open>
  C9. When \<^verbatim>\<open>updateTask\<close> succeeds, the caller is the poster of the task and the task was
  \<^verbatim>\<open>OPEN\<close>; so an edit of a task whose status has advanced fails. After every call,
  successful or not, each task row has its identifier, poster, acceptor, status, category,
  location, time window, scheduled time and all four lifecycle timestamps unchanged (only
  title, description and price can differ), and the other tables are unchanged.
\<close>

theorem updateTask_frame:
  assumes "updateTask c taskId input s = (r, s')"
  shows "(success r \<longrightarrow>
            (\<exists>u t. user c = Some u \<and> select_task s (Some u) taskId = Some t \<and>
                   poster_id t = u \<and> status t = OPEN)) \<and>
         list_all2 terms_only (tasks s) (tasks s') \<and>
         profiles s' = profiles s \<and> messages s' = messages s \<and>
         ratings s' = ratings s \<and> blocks s' = blocks s"
proof (cases "success r")
  case False
  with assms have "s' = s"
    by (auto simp: updateTask_def split: option.splits if_splits)
  with False show ?thesis
    by (simp add: list_all2_same terms_only_refl)
next
  case True
  with assms obtain u t where ut: "user c = Some u" "select_task s (Some u) taskId = Some t"
      "poster_id t = u" "status t = OPEN"
      and upd: "update_task_single s u (\<lambda>r. t_id r = taskId) (update_patch input) =
                  Some (case r of Success x \<Rightarrow> x, s')"
    by (auto simp: updateTask_def split: option.splits if_splits)
  from update_task_single_result[OF upd] have
    "s' = s\<lparr>tasks := map (\<lambda>t. if update_target s u (\<lambda>r. t_id r = taskId) t
                              then update_patch input t else t) (tasks s)\<rparr>" .
  then have "list_all2 terms_only (tasks s) (tasks s')" "profiles s' = profiles s"
    "messages s' = messages s" "ratings s' = ratings s" "blocks s' = blocks s"
    by (simp_all add: terms_only_map)
  with ut show ?thesis by auto
qed

lemma updateTask_edit_db:
  "updateTask \<lparr>user = Some 7, now = 100, new_id = 0\<rparr> 10
      \<lparr>u_title = None, u_description = Some (js '' Collect two parcels ''),
       u_price_cents = Some 1500\<rparr> edit_db
   = (Success ((demo_task 10 OPEN None 1500 10)\<lparr>description := js ''Collect two parcels''\<rparr>),
      demo_db [(demo_task 10 OPEN None 1500 10)\<lparr>description := js ''Collect two parcels''\<rparr>,
               demo_task 11 ACCEPTED (Some 8) 3000 20] [] [])"
  by (simp add: updateTask_def longer_than_def empty_patch_def truthy_def update_patch_def
      store_defs string_defs edit_db_def demo_defs)

lemma select_edit_db:
  "select_task edit_db (Some 7) 10 = Some (demo_task 10 OPEN None 1000 10)"
  by (simp add: store_defs edit_db_def demo_defs)

theorem updateTask_frame_witness:
  "updateTask \<lparr>user = Some 7, now = 100, new_id = 0\<rparr> 10
      \<lparr>u_title = None, u_description = Some (js '' Collect two parcels ''),
       u_price_cents = Some 1500\<rparr> edit_db
   = (Success ((demo_task 10 OPEN None 1500 10)\<lparr>description := js ''Collect two parcels''\<rparr>),
      demo_db [(demo_task 10 OPEN None 1500 10)\<lparr>description := js ''Collect two parcels''\<rparr>,
               demo_task 11 ACCEPTED (Some 8) 3000 20] [] []) \<and>
   select_task edit_db (Some 7) 10 = Some (demo_task 10 OPEN None 1000 10) \<and>
   poster_id (demo_task 10 OPEN None 1000 10) = 7 \<and>
   status (demo_task 10 OPEN None 1000 10) = OPEN \<and>
   list_all2 terms_only (tasks edit_db)
     (tasks (demo_db [(demo_task 10 OPEN None 1500 10)\<lparr>description := js ''Collect two parcels''\<rparr>,
               demo_task 11 ACCEPTED (Some 8) 3000 20] [] []))"
  using updateTask_frame [OF updateTask_edit_db] updateTask_edit_db select_edit_db
  by (simp add: demo_task_def)

subsection \<open>Cancelling a task\<close>

lemma cancel_admitted:
  assumes "tasks_read s u t" "task_constraints s t"
    "poster_id t = u \<or> accepted_by_user_id t = Some u"
  shows "update_admitted s u (t\<lparr>status := CANCELED, canceled_at := x\<rparr>)"
  using assms
  by (simp add: update_admitted_def tasks_update_check_def tasks_read_def task_constraints_def)

lemma cancelTask_checks_Inr:
  "cancelTask_checks c taskId s = Inr (u, t) \<longleftrightarrow>
     user c = Some u \<and> select_task s (Some u) taskId = Some t \<and>
     (poster_id t = u \<or> accepted_by_user_id t = Some u) \<and>
     status t \<noteq> COMPLETE \<and> status t \<noteq> CANCELED \<and>
     (accepted_by_user_id t = Some u \<longrightarrow> status t = ACCEPTED)"
  by (cases "user c"; cases "select_task s (user c) taskId")
     (auto simp: cancelTask_checks_def Let_def)

lemma cancelTask_unfold:
  "cancelTask c taskId s =
     (case cancelTask_checks c taskId s of
        Inl e \<Rightarrow> (Failure e, s)
      | Inr (u, t) \<Rightarrow>
          (case cancelTask_update c u taskId s of
             None \<Rightarrow> (Failure ''Failed to cancel task'', s)
           | Some s' \<Rightarrow>
               (Success (),
                insert_ignoring_error s' u
                  (system_message c u taskId (canceled_text (poster_id t = u))))))"
  by (simp add: cancelTask_def cancelTask_interleaved_def
      split: sum.splits option.splits prod.splits)

lemma cancelTask_success:
  "success (fst (cancelTask c taskId s)) \<longleftrightarrow>
     (\<exists>u t s1. cancelTask_checks c taskId s = Inr (u, t) \<and>
               cancelTask_update c u taskId s = Some s1)"
  by (simp add: cancelTask_unfold split: sum.splits option.splits prod.splits)

lemma cancelTask_failure:
  "\<not> success (fst (cancelTask c taskId s)) \<Longrightarrow> snd (cancelTask c taskId s) = s"
  by (simp add: cancelTask_unfold split: sum.splits option.splits prod.splits)

text \<open>
  C7, as the code has it. The condition of the claim decides the outcome for a task the
  caller can read: \<^verbatim>\<open>cancelTask\<close> succeeds only if the caller reads the task (it exists and
  no block stands between the caller and its poster or acceptor) and is its poster with
  status \<^verbatim>\<open>OPEN\<close> or \<^verbatim>\<open>ACCEPTED\<close>, or its acceptor with status \<^verbatim>\<open>ACCEPTED\<close>; it does succeed
  whenever that holds for a stored row (one that meets the table constraints and whose
  poster is not its acceptor); and whenever it fails the store is left as it was.
\<close>

theorem cancelTask_exactly:
  assumes run: "cancelTask c taskId s = (r, s')"
  shows "(success r \<longrightarrow>
            (\<exists>u t. user c = Some u \<and> select_task s (Some u) taskId = Some t \<and>
               ((poster_id t = u \<and> (status t = OPEN \<or> status t = ACCEPTED)) \<or>
                (accepted_by_user_id t = Some u \<and> status t = ACCEPTED)))) \<and>
         (\<forall>u t. user c = Some u \<and> select_task s (Some u) taskId = Some t \<and>
               task_constraints s t \<and> accepted_by_user_id t \<noteq> Some (poster_id t) \<and>
               ((poster_id t = u \<and> (status t = OPEN \<or> status t = ACCEPTED)) \<or>
                (accepted_by_user_id t = Some u \<and> status t = ACCEPTED))
             \<longrightarrow> success r) \<and>
         (\<not> success r \<longrightarrow> s' = s)"
proof (intro conjI allI impI)
  assume "success r"
  with run have "success (fst (cancelTask c taskId s))" by simp
  then obtain u t where "cancelTask_checks c taskId s = Inr (u, t)"
    unfolding cancelTask_success by blast
  then have "user c = Some u" "select_task s (Some u) taskId = Some t"
    "(poster_id t = u \<and> (status t = OPEN \<or> status t = ACCEPTED)) \<or>
      (accepted_by_user_id t = Some u \<and> status t = ACCEPTED)"
    unfolding cancelTask_checks_Inr by (cases "status t"; simp)+
  then show "\<exists>u t. user c = Some u \<and> select_task s (Some u) taskId = Some t \<and>
               ((poster_id t = u \<and> (status t = OPEN \<or> status t = ACCEPTED)) \<or>
                (accepted_by_user_id t = Some u \<and> status t = ACCEPTED))" by blast
next
  fix u t
  assume a: "user c = Some u \<and> select_task s (Some u) taskId = Some t \<and>
               task_constraints s t \<and> accepted_by_user_id t \<noteq> Some (poster_id t) \<and>
               ((poster_id t = u \<and> (status t = OPEN \<or> status t = ACCEPTED)) \<or>
                (accepted_by_user_id t = Some u \<and> status t = ACCEPTED))"
  then have chk: "cancelTask_checks c taskId s = Inr (u, t)"
    unfolding cancelTask_checks_Inr by auto
  from a have sel: "select_task s (Some u) taskId = Some t" by simp
  from a have part: "poster_id t = u \<or> accepted_by_user_id t = Some u" by blast
  from a have con: "task_constraints s t" by simp
  have "\<exists>s1. cancelTask_update c u taskId s = Some s1"
    unfolding cancelTask_update_def
  proof (rule update_tasks_Some)
    fix r assume r: "r \<in> set (tasks s)" "update_target s u (\<lambda>r. t_id r = taskId) r"
    then have "r = t"
      using select_task_SomeD(4)[OF sel] by (simp add: update_target_def)
    then show "update_admitted s u (r\<lparr>status := CANCELED, canceled_at := Some (now c)\<rparr>)"
      using cancel_admitted[OF select_task_SomeD(2)[OF sel] con part] by simp
  qed
  with chk have "success (fst (cancelTask c taskId s))"
    unfolding cancelTask_success by blast
  with run show "success r" by simp
next
  assume "\<not> success r"
  with run cancelTask_failure[of c taskId s] show "s' = s" by simp
qed

lemma cancelTask_accepted_db:
  "cancelTask \<lparr>user = Some 8, now = 100, new_id = 50\<rparr> 11 accepted_db
     = (Success (),
        demo_db [(demo_task 11 ACCEPTED (Some 8) 3000 20)
                   \<lparr>status := CANCELED, canceled_at := Some 100\<rparr>]
          [system_message \<lparr>user = Some 8, now = 100, new_id = 50\<rparr> 8 11 (canceled_text False)]
          [])"
  by (simp add: cancelTask_unfold cancelTask_checks_def cancelTask_update_def
      insert_ignoring_error_def system_message_def canceled_text_def
      store_defs string_defs accepted_db_def demo_defs)

lemma select_accepted_db:
  "select_task accepted_db (Some 8) 11 = Some (demo_task 11 ACCEPTED (Some 8) 3000 20)"
  by (simp add: store_defs accepted_db_def demo_defs)

lemma constraints_accepted_db:
  "task_constraints accepted_db (demo_task 11 ACCEPTED (Some 8) 3000 20)"
  by (simp add: store_defs string_defs accepted_db_def demo_defs)

theorem cancelTask_exactly_witness:
  "cancelTask \<lparr>user = Some 8, now = 100, new_id = 50\<rparr> 11 accepted_db
     = (Success (),
        demo_db [(demo_task 11 ACCEPTED (Some 8) 3000 20)
                   \<lparr>status := CANCELED, canceled_at := Some 100\<rparr>]
          [system_message \<lparr>user = Some 8, now = 100, new_id = 50\<rparr> 8 11 (canceled_text False)]
          []) \<and>
   select_task accepted_db (Some 8) 11 = Some (demo_task 11 ACCEPTED (Some 8) 3000 20) \<and>
   task_constraints accepted_db (demo_task 11 ACCEPTED (Some 8) 3000 20) \<and>
   accepted_by_user_id (demo_task 11 ACCEPTED (Some 8) 3000 20) = Some 8 \<and>
   poster_id (demo_task 11 ACCEPTED (Some 8) 3000 20) = 7 \<and>
   status (demo_task 11 ACCEPTED (Some 8) 3000 20) = ACCEPTED"
  using cancelTask_exactly [OF cancelTask_accepted_db] cancelTask_accepted_db
    select_accepted_db constraints_accepted_db
  by (simp add: demo_task_def)

text \<open>The poster of an \<^verbatim>\<open>ACCEPTED\<close> task whom the worker has blocked cannot read the task,
  and the cancellation is turned away.\<close>

theorem cancelTask_blocked_counterexample:
  "tasks blocked_db = [demo_task 11 ACCEPTED (Some 8) 3000 20] \<and>
   poster_id (demo_task 11 ACCEPTED (Some 8) 3000 20) = 7 \<and>
   status (demo_task 11 ACCEPTED (Some 8) 3000 20) = ACCEPTED \<and>
   cancelTask \<lparr>user = Some 7, now = 100, new_id = 50\<rparr> 11 blocked_db
     = (Failure ''Task not found'', blocked_db)"
  by (simp add: cancelTask_unfold cancelTask_checks_def store_defs blocked_db_def demo_defs)

subsection \<open>Messages\<close>

lemma sendMessage_cases:
  "sendMessage c taskId txt s = (r, s') \<Longrightarrow>
     (\<not> success r \<and> s' = s) \<or>
     (\<exists>u t. user c = Some u \<and> select_task s (Some u) taskId = Some t \<and>
        (poster_id t = u \<or> accepted_by_user_id t = Some u) \<and>
        status t \<noteq> OPEN \<and> status t \<noteq> CANCELED \<and>
        \<not> is_blocked s (Some (poster_id t)) (accepted_by_user_id t) \<and>
        trim txt \<noteq> [] \<and> length (trim txt) \<le> 2000 \<and>
        insert_message_returning s u (text_message c u taskId (trim txt)) = Some s' \<and>
        r = Success (text_message c u taskId (trim txt)))"
  by (cases "user c"; cases "select_task s (user c) taskId")
     (auto simp: sendMessage_def Let_def split: if_splits option.splits)

text \<open>
  C3. When \<^verbatim>\<open>sendMessage\<close> succeeds, the caller is the poster or the current acceptor of a
  task it can read, the status of the task is \<^verbatim>\<open>ACCEPTED\<close> or \<^verbatim>\<open>COMPLETE\<close>, no block row
  joins poster and acceptor in either direction, the trimmed body is non-empty and has at
  most 2000 code units, and exactly the trimmed message is appended. In every other case
  the action returns an error and the store is unchanged.
\<close>

theorem sendMessage_gate:
  assumes "sendMessage c taskId txt s = (r, s')"
  shows "(success r \<longrightarrow>
            (\<exists>u t. user c = Some u \<and> select_task s (Some u) taskId = Some t \<and>
               (poster_id t = u \<or> accepted_by_user_id t = Some u) \<and>
               (status t = ACCEPTED \<or> status t = COMPLETE) \<and>
               \<not> is_blocked s (Some (poster_id t)) (accepted_by_user_id t) \<and>
               trim txt \<noteq> [] \<and> length (trim txt) \<le> 2000 \<and>
               r = Success (text_message c u taskId (trim txt)) \<and>
               s' = s\<lparr>messages := messages s @ [text_message c u taskId (trim txt)]\<rparr>)) \<and>
         (\<not> success r \<longrightarrow> s' = s)"
proof -
  from sendMessage_cases[OF assms] show ?thesis
  proof
    assume "\<not> success r \<and> s' = s" then show ?thesis by simp
  next
    assume "\<exists>u t. user c = Some u \<and> select_task s (Some u) taskId = Some t \<and>
        (poster_id t = u \<or> accepted_by_user_id t = Some u) \<and>
        status t \<noteq> OPEN \<and> status t \<noteq> CANCELED \<and>
        \<not> is_blocked s (Some (poster_id t)) (accepted_by_user_id t) \<and>
        trim txt \<noteq> [] \<and> length (trim txt) \<le> 2000 \<and>
        insert_message_returning s u (text_message c u taskId (trim txt)) = Some s' \<and>
        r = Success (text_message c u taskId (trim txt))"
    then obtain u t where h: "user c = Some u" "select_task s (Some u) taskId = Some t"
        "poster_id t = u \<or> accepted_by_user_id t = Some u"
        "status t \<noteq> OPEN" "status t \<noteq> CANCELED"
        "\<not> is_blocked s (Some (poster_id t)) (accepted_by_user_id t)"
        "trim txt \<noteq> []" "length (trim txt) \<le> 2000"
        "insert_message_returning s u (text_message c u taskId (trim txt)) = Some s'"
        "r = Success (text_message c u taskId (trim txt))" by blast
    from h(4,5) have st: "status t = ACCEPTED \<or> status t = COMPLETE"
      by (cases "status t") simp_all
    from h(9) have s': "s' = s\<lparr>messages := messages s @ [text_message c u taskId (trim txt)]\<rparr>"
      by (simp add: insert_message_returning_def split: if_splits)
    from h st s' show ?thesis by auto
  qed
qed

lemma sendMessage_accepted_db:
  "sendMessage \<lparr>user = Some 8, now = 100, new_id = 50\<rparr> 11 (js '' On my way  '') accepted_db
     = (Success (text_message \<lparr>user = Some 8, now = 100, new_id = 50\<rparr> 8 11 (js ''On my way'')),
        demo_db [demo_task 11 ACCEPTED (Some 8) 3000 20]
          [text_message \<lparr>user = Some 8, now = 100, new_id = 50\<rparr> 8 11 (js ''On my way'')] [])"
  by (simp add: sendMessage_def Let_def text_message_def store_defs string_defs
      accepted_db_def demo_defs)

lemma trim_on_my_way: "trim (js '' On my way  '') = js ''On my way''"
  by (simp add: string_defs)

theorem sendMessage_gate_witness:
  "sendMessage \<lparr>user = Some 8, now = 100, new_id = 50\<rparr> 11 (js '' On my way  '') accepted_db
     = (Success (text_message \<lparr>user = Some 8, now = 100, new_id = 50\<rparr> 8 11 (js ''On my way'')),
        demo_db [demo_task 11 ACCEPTED (Some 8) 3000 20]
          [text_message \<lparr>user = Some 8, now = 100, new_id = 50\<rparr> 8 11 (js ''On my way'')] []) \<and>
   select_task accepted_db (Some 8) 11 = Some (demo_task 11 ACCEPTED (Some 8) 3000 20) \<and>
   accepted_by_user_id (demo_task 11 ACCEPTED (Some 8) 3000 20) = Some 8 \<and>
   status (demo_task 11 ACCEPTED (Some 8) 3000 20) = ACCEPTED \<and>
   \<not> is_blocked accepted_db (Some 7) (Some 8) \<and>
   trim (js '' On my way  '') = js ''On my way''"
  using sendMessage_gate [OF sendMessage_accepted_db] sendMessage_accepted_db
    select_accepted_db trim_on_my_way
  by (simp add: demo_task_def is_blocked_def accepted_db_def demo_db_def)

lemma demo_task_sel [simp]:
  "t_id (demo_task i st w price at) = i" "poster_id (demo_task i st w price at) = 7"
  "accepted_by_user_id (demo_task i st w price at) = w" "status (demo_task i st w price at) = st"
  by (simp_all add: demo_task_def)

lemma cancelTask_checks_open_db:
  "cancelTask_checks \<lparr>user = Some 7, now = 100, new_id = 50\<rparr> 10 open_db
     = Inr (7, demo_task 10 OPEN None 1000 10)"
  by (simp add: cancelTask_checks_def store_defs open_db_def demo_defs)

lemma cancelTask_update_open_db:
  "cancelTask_update \<lparr>user = Some 7, now = 100, new_id = 50\<rparr> 7 10 open_db =
     Some (demo_db [(demo_task 10 OPEN None 1000 10)
                      \<lparr>status := CANCELED, canceled_at := Some 100\<rparr>] [] [])"
  by (simp add: cancelTask_update_def store_defs string_defs open_db_def demo_defs)

lemma cancel_message_open_db:
  "insert_ignoring_error
     (demo_db [(demo_task 10 OPEN None 1000 10)
                 \<lparr>status := CANCELED, canceled_at := Some 100\<rparr>] [] []) 7
     (system_message \<lparr>user = Some 7, now = 100, new_id = 50\<rparr> 7 10 (canceled_text True))
   = canceled_db"
  by (simp add: insert_ignoring_error_def system_message_def canceled_text_def
      store_defs string_defs canceled_db_def demo_defs)

lemma cancelTask_open_db:
  "cancelTask \<lparr>user = Some 7, now = 100, new_id = 50\<rparr> 10 open_db = (Success (), canceled_db)"
  unfolding cancelTask_unfold cancelTask_checks_open_db
  by (simp add: cancelTask_update_open_db cancel_message_open_db)

lemma messages_read_own:
  assumes "select_task s (Some u) taskId = Some t"
    "poster_id t = u \<or> accepted_by_user_id t = Some u" "m_task_id m = taskId"
  shows "messages_read s u m"
proof -
  from select_task_SomeD(1-3)[OF assms(1)] assms(3)
  have "t \<in> set (visible_tasks s (Some u))" "t_id t = m_task_id m"
    by (simp_all add: visible_tasks_def)
  with assms(2) show ?thesis
    unfolding messages_read_def list_ex_iff by blast
qed

text \<open>
  C4, as the code has it. \<^verbatim>\<open>getMessages\<close> succeeds only for the poster or the current
  acceptor of a task the caller can read, and for them it always succeeds, whatever the
  status of the task: the answer is the whole history of the task in order of creation.
  Neither the action nor the policy \<^verbatim>\<open>messages_read\<close> looks at the status.
\<close>

theorem getMessages_gate:
  "(success (getMessages c taskId s) \<longrightarrow>
      (\<exists>u t. user c = Some u \<and> select_task s (Some u) taskId = Some t \<and>
             (poster_id t = u \<or> accepted_by_user_id t = Some u))) \<and>
   (\<forall>u t. user c = Some u \<and> select_task s (Some u) taskId = Some t \<and>
          (poster_id t = u \<or> accepted_by_user_id t = Some u) \<longrightarrow>
      getMessages c taskId s =
        Success (map (\<lambda>m. (m, sender_embed s m))
                  (sort_key m_created_at (filter (\<lambda>m. m_task_id m = taskId) (messages s)))))"
proof (intro conjI allI impI)
  assume "success (getMessages c taskId s)"
  then show "\<exists>u t. user c = Some u \<and> select_task s (Some u) taskId = Some t \<and>
             (poster_id t = u \<or> accepted_by_user_id t = Some u)"
    by (cases "user c"; cases "select_task s (user c) taskId")
       (auto simp: getMessages_def Let_def split: if_splits)
next
  fix u t
  assume a: "user c = Some u \<and> select_task s (Some u) taskId = Some t \<and>
          (poster_id t = u \<or> accepted_by_user_id t = Some u)"
  then have "\<And>m. m_task_id m = taskId \<Longrightarrow> messages_read s u m"
    using messages_read_own by blast
  then have "filter (\<lambda>m. messages_read s u m \<and> m_task_id m = taskId) (messages s)
             = filter (\<lambda>m. m_task_id m = taskId) (messages s)"
    by (intro filter_cong) auto
  with a show "getMessages c taskId s =
        Success (map (\<lambda>m. (m, sender_embed s m))
                  (sort_key m_created_at (filter (\<lambda>m. m_task_id m = taskId) (messages s))))"
    by (auto simp: getMessages_def Let_def)
qed

lemma select_canceled_db:
  "select_task canceled_db (Some 7) 10 =
     Some ((demo_task 10 OPEN None 1000 10)\<lparr>status := CANCELED, canceled_at := Some 100\<rparr>)"
  by (simp add: store_defs canceled_db_def demo_defs)

lemma getMessages_canceled_db:
  "getMessages \<lparr>user = Some 7, now = 200, new_id = 51\<rparr> 10 canceled_db =
     Success [(system_message \<lparr>user = Some 7, now = 100, new_id = 50\<rparr> 7 10 (canceled_text True),
               Some (demo_profile 7 ''pat'' True))]"
  by (simp add: getMessages_def Let_def sender_embed_def system_message_def
      store_defs canceled_db_def demo_defs)

theorem getMessages_gate_witness:
  "select_task canceled_db (Some 7) 10 =
     Some ((demo_task 10 OPEN None 1000 10)\<lparr>status := CANCELED, canceled_at := Some 100\<rparr>) \<and>
   poster_id ((demo_task 10 OPEN None 1000 10)\<lparr>status := CANCELED, canceled_at := Some 100\<rparr>) = 7 \<and>
   getMessages \<lparr>user = Some 7, now = 200, new_id = 51\<rparr> 10 canceled_db =
     Success (map (\<lambda>m. (m, sender_embed canceled_db m))
                (sort_key m_created_at (filter (\<lambda>m. m_task_id m = 10) (messages canceled_db))))"
proof -
  have p: "poster_id ((demo_task 10 OPEN None 1000 10)
             \<lparr>status := CANCELED, canceled_at := Some 100\<rparr>) = 7"
    by simp
  have "getMessages \<lparr>user = Some 7, now = 200, new_id = 51\<rparr> 10 canceled_db =
     Success (map (\<lambda>m. (m, sender_embed canceled_db m))
                (sort_key m_created_at (filter (\<lambda>m. m_task_id m = 10) (messages canceled_db))))"
    by (rule getMessages_gate [THEN conjunct2, rule_format,
          of _ 7 _ _ "(demo_task 10 OPEN None 1000 10)\<lparr>status := CANCELED, canceled_at := Some 100\<rparr>"])
       (simp add: select_canceled_db)
  with select_canceled_db p show ?thesis by blast
qed

text \<open>The poster cancels an open task and then reads the messages of the canceled task.\<close>

theorem getMessages_canceled_counterexample:
  "cancelTask \<lparr>user = Some 7, now = 100, new_id = 50\<rparr> 10 open_db = (Success (), canceled_db) \<and>
   map status (tasks canceled_db) = [CANCELED] \<and>
   map poster_id (tasks canceled_db) = [7] \<and>
   getMessages \<lparr>user = Some 7, now = 200, new_id = 51\<rparr> 10 canceled_db =
     Success [(system_message \<lparr>user = Some 7, now = 100, new_id = 50\<rparr> 7 10 (canceled_text True),
               Some (demo_profile 7 ''pat'' True))]"
proof -
  have "map status (tasks canceled_db) = [CANCELED]" "map poster_id (tasks canceled_db) = [7]"
    by (simp_all add: canceled_db_def demo_db_def)
  with cancelTask_open_db getMessages_canceled_db show ?thesis by blast
qed

subsection \<open>Ratings\<close>


lemma submitRating_cases:
  "submitRating c input s = (r, s') \<Longrightarrow>
     (\<not> success r \<and> s' = s) \<or>
     (\<exists>u t w. user c = Some u \<and> select_task s (Some u) (i_taskId input) = Some t \<and>
        status t = COMPLETE \<and> (poster_id t = u \<or> accepted_by_user_id t = Some u) \<and>
        (if poster_id t = u then accepted_by_user_id t = Some w else w = poster_id t) \<and>
        insert_rating s u (new_rating c u w input) = Some s' \<and>
        r = Success (new_rating c u w input))"
  by (cases "user c"; cases "select_task s (user c) (i_taskId input)")
     (auto simp: submitRating_def Let_def split: if_splits option.splits)

lemma insert_rating_SomeD:
  assumes "insert_rating s u q = Some s'"
  shows "s' = s\<lparr>ratings := ratings s @ [q]\<rparr>" "rater_id q \<noteq> ratee_id q"
    "\<not> list_ex (\<lambda>x. r_task_id x = r_task_id q \<and> rater_id x = rater_id q) (ratings s)"
  using assms by (simp_all add: insert_rating_def rating_constraints_def split: if_splits)

lemma new_rating_sel [simp]:
  "r_task_id (new_rating c u w input) = i_taskId input" "rater_id (new_rating c u w input) = u"
  "ratee_id (new_rating c u w input) = w"
  by (simp_all add: new_rating_def)

lemma is_blocked_frame: "blocks s' = blocks s \<Longrightarrow> is_blocked s' a b = is_blocked s a b"
  by (cases a; cases b) (simp_all add: is_blocked_def)

lemma tasks_read_frame: "blocks s' = blocks s \<Longrightarrow> tasks_read s' = tasks_read s"
  by (intro ext) (simp add: tasks_read_def is_blocked_frame[of s' s])

lemma visible_tasks_frame:
  "blocks s' = blocks s \<Longrightarrow> tasks s' = tasks s \<Longrightarrow> visible_tasks s' v = visible_tasks s v"
  by (cases v) (simp_all add: visible_tasks_def tasks_read_frame[of s' s])

lemma select_task_frame:
  "blocks s' = blocks s \<Longrightarrow> tasks s' = tasks s \<Longrightarrow> select_task s' v i = select_task s v i"
  by (simp add: select_task_def visible_tasks_frame[of s' s])

lemma select_task_ratings [simp]:
  "select_task (s\<lparr>ratings := x\<rparr>) v i = select_task s v i"
  by (rule select_task_frame) simp_all

lemma submitRating_again:
  assumes u: "user c' = Some u" and sel: "select_task s (Some u) (i_taskId input') = Some t"
    and st: "status t = COMPLETE" and part: "poster_id t = u \<or> accepted_by_user_id t = Some u"
    and w: "(if poster_id t = u then accepted_by_user_id t = Some w else w = poster_id t)"
    and stars: "1 \<le> i_stars input'" "i_stars input' \<le> 5" and com: "\<not> longer_than (i_comment input') 500"
    and one: "filter (\<lambda>q. r_task_id q = i_taskId input' \<and> rater_id q = u) (ratings s) = [q]"
  shows "submitRating c' input' s = (Failure ''You have already rated this task'', s)"
proof -
  from w have "(if poster_id t = u then accepted_by_user_id t else Some (poster_id t)) = Some w"
    by (simp split: if_splits)
  with u sel st part stars com one show ?thesis
    by (simp add: submitRating_def Let_def single_def)
qed

text \<open>
  C8. When \<^verbatim>\<open>submitRating\<close> succeeds, the task is \<^verbatim>\<open>COMPLETE\<close>, the caller is its poster or
  acceptor, the stored ratee is the other participant and differs from the rater, and no
  rating of that task by that rater existed; exactly that rating is appended. A failed call
  changes nothing. After a success, any further well-formed attempt by the same rater on
  the same task fails with the already-rated error. So the pairs (task, rater) stay
  distinct, and every stored rating keeps rater and ratee apart.
\<close>

theorem submitRating_once:
  assumes run: "submitRating c input s = (r, s')"
  shows "(success r \<longrightarrow>
            (\<exists>u t w. user c = Some u \<and> select_task s (Some u) (i_taskId input) = Some t \<and>
               status t = COMPLETE \<and> (poster_id t = u \<or> accepted_by_user_id t = Some u) \<and>
               (if poster_id t = u then accepted_by_user_id t = Some w else w = poster_id t) \<and>
               w \<noteq> u \<and>
               \<not> list_ex (\<lambda>q. r_task_id q = i_taskId input \<and> rater_id q = u) (ratings s) \<and>
               r = Success (new_rating c u w input) \<and>
               s' = s\<lparr>ratings := ratings s @ [new_rating c u w input]\<rparr>)) \<and>
         (\<not> success r \<longrightarrow> s' = s) \<and>
         (success r \<longrightarrow>
            (\<forall>c' input'. user c' = user c \<and> i_taskId input' = i_taskId input \<and>
                 1 \<le> i_stars input' \<and> i_stars input' \<le> 5 \<and> \<not> longer_than (i_comment input') 500
               \<longrightarrow> submitRating c' input' s' = (Failure ''You have already rated this task'', s'))) \<and>
         (distinct (map rating_key (ratings s)) \<longrightarrow> distinct (map rating_key (ratings s'))) \<and>
         (list_all (\<lambda>q. rater_id q \<noteq> ratee_id q) (ratings s) \<longrightarrow>
            list_all (\<lambda>q. rater_id q \<noteq> ratee_id q) (ratings s'))"
proof -
  from submitRating_cases[OF run] show ?thesis
  proof
    assume "\<not> success r \<and> s' = s" then show ?thesis by simp
  next
    assume "\<exists>u t w. user c = Some u \<and> select_task s (Some u) (i_taskId input) = Some t \<and>
        status t = COMPLETE \<and> (poster_id t = u \<or> accepted_by_user_id t = Some u) \<and>
        (if poster_id t = u then accepted_by_user_id t = Some w else w = poster_id t) \<and>
        insert_rating s u (new_rating c u w input) = Some s' \<and>
        r = Success (new_rating c u w input)"
    then obtain u t w where h: "user c = Some u" "select_task s (Some u) (i_taskId input) = Some t"
        "status t = COMPLETE" "poster_id t = u \<or> accepted_by_user_id t = Some u"
        "(if poster_id t = u then accepted_by_user_id t = Some w else w = poster_id t)"
        "insert_rating s u (new_rating c u w input) = Some s'"
        "r = Success (new_rating c u w input)" by blast
    note i = insert_rating_SomeD[OF h(6)]
    from i(2) have wu: "w \<noteq> u" by simp
    from i(3) have fresh: "\<not> list_ex (\<lambda>q. r_task_id q = i_taskId input \<and> rater_id q = u) (ratings s)"
      by simp
    then have none: "filter (\<lambda>q. r_task_id q = i_taskId input \<and> rater_id q = u) (ratings s) = []"
      by (simp add: list_ex_iff filter_empty_conv)
    have first: "\<exists>u t w. user c = Some u \<and> select_task s (Some u) (i_taskId input) = Some t \<and>
               status t = COMPLETE \<and> (poster_id t = u \<or> accepted_by_user_id t = Some u) \<and>
               (if poster_id t = u then accepted_by_user_id t = Some w else w = poster_id t) \<and>
               w \<noteq> u \<and>
               \<not> list_ex (\<lambda>q. r_task_id q = i_taskId input \<and> rater_id q = u) (ratings s) \<and>
               r = Success (new_rating c u w input) \<and>
               s' = s\<lparr>ratings := ratings s @ [new_rating c u w input]\<rparr>"
      using h(1-5,7) wu fresh i(1) by blast
    have again: "\<forall>c' input'. user c' = user c \<and> i_taskId input' = i_taskId input \<and>
                 1 \<le> i_stars input' \<and> i_stars input' \<le> 5 \<and> \<not> longer_than (i_comment input') 500
               \<longrightarrow> submitRating c' input' s' = (Failure ''You have already rated this task'', s')"
    proof (intro allI impI)
      fix c' :: ctx and input' :: SubmitRatingInput
      assume a: "user c' = user c \<and> i_taskId input' = i_taskId input \<and>
                 1 \<le> i_stars input' \<and> i_stars input' \<le> 5 \<and> \<not> longer_than (i_comment input') 500"
      have f: "filter (\<lambda>q. r_task_id q = i_taskId input' \<and> rater_id q = u) (ratings s')
                 = [new_rating c u w input]"
        using a none by (simp add: i(1))
      have sel: "select_task s' (Some u) (i_taskId input') = Some t"
        using a h(2) by (simp add: i(1))
      from a h(1) have u': "user c' = Some u" by simp
      from a show "submitRating c' input' s' = (Failure ''You have already rated this task'', s')"
        by (intro submitRating_again[OF u' sel h(3) h(4) h(5) _ _ _ f]) simp_all
    qed
    have dist: "distinct (map rating_key (ratings s)) \<longrightarrow> distinct (map rating_key (ratings s'))"
      using fresh by (auto simp: i(1) rating_key_def list_ex_iff)
    have self: "list_all (\<lambda>q. rater_id q \<noteq> ratee_id q) (ratings s) \<longrightarrow>
            list_all (\<lambda>q. rater_id q \<noteq> ratee_id q) (ratings s')"
      using wu by (simp add: i(1))
    from first again dist self h(7) show ?thesis by simp
  qed
qed


lemma submitRating_complete_db:
  "submitRating \<lparr>user = Some 7, now = 300, new_id = 70\<rparr>
      \<lparr>i_taskId = 12, i_stars = 5, i_comment = Some (js ''Thanks! '')\<rparr> complete_db
   = (Success (new_rating \<lparr>user = Some 7, now = 300, new_id = 70\<rparr> 7 8
                 \<lparr>i_taskId = 12, i_stars = 5, i_comment = Some (js ''Thanks! '')\<rparr>),
      complete_db\<lparr>ratings := ratings complete_db @
        [new_rating \<lparr>user = Some 7, now = 300, new_id = 70\<rparr> 7 8
           \<lparr>i_taskId = 12, i_stars = 5, i_comment = Some (js ''Thanks! '')\<rparr>]\<rparr>)"
  by (simp add: submitRating_def Let_def longer_than_def new_rating_def store_defs string_defs
      complete_db_def demo_defs)

theorem submitRating_once_witness:
  "submitRating \<lparr>user = Some 7, now = 300, new_id = 70\<rparr>
      \<lparr>i_taskId = 12, i_stars = 5, i_comment = Some (js ''Thanks! '')\<rparr> complete_db
   = (Success (new_rating \<lparr>user = Some 7, now = 300, new_id = 70\<rparr> 7 8
                 \<lparr>i_taskId = 12, i_stars = 5, i_comment = Some (js ''Thanks! '')\<rparr>),
      complete_db\<lparr>ratings := ratings complete_db @
        [new_rating \<lparr>user = Some 7, now = 300, new_id = 70\<rparr> 7 8
           \<lparr>i_taskId = 12, i_stars = 5, i_comment = Some (js ''Thanks! '')\<rparr>]\<rparr>) \<and>
   submitRating \<lparr>user = Some 7, now = 400, new_id = 71\<rparr>
      \<lparr>i_taskId = 12, i_stars = 1, i_comment = None\<rparr>
      (complete_db\<lparr>ratings := ratings complete_db @
        [new_rating \<lparr>user = Some 7, now = 300, new_id = 70\<rparr> 7 8
           \<lparr>i_taskId = 12, i_stars = 5, i_comment = Some (js ''Thanks! '')\<rparr>]\<rparr>)
   = (Failure ''You have already rated this task'',
      complete_db\<lparr>ratings := ratings complete_db @
        [new_rating \<lparr>user = Some 7, now = 300, new_id = 70\<rparr> 7 8
           \<lparr>i_taskId = 12, i_stars = 5, i_comment = Some (js ''Thanks! '')\<rparr>]\<rparr>)"
proof -
  note t = submitRating_once [OF submitRating_complete_db]
  have "submitRating \<lparr>user = Some 7, now = 400, new_id = 71\<rparr>
      \<lparr>i_taskId = 12, i_stars = 1, i_comment = None\<rparr>
      (complete_db\<lparr>ratings := ratings complete_db @
        [new_rating \<lparr>user = Some 7, now = 300, new_id = 70\<rparr> 7 8
           \<lparr>i_taskId = 12, i_stars = 5, i_comment = Some (js ''Thanks! '')\<rparr>]\<rparr>)
   = (Failure ''You have already rated this task'',
      complete_db\<lparr>ratings := ratings complete_db @
        [new_rating \<lparr>user = Some 7, now = 300, new_id = 70\<rparr> 7 8
           \<lparr>i_taskId = 12, i_stars = 5, i_comment = Some (js ''Thanks! '')\<rparr>]\<rparr>)"
    by (rule t [THEN conjunct2, THEN conjunct2, THEN conjunct1, rule_format])
       (simp_all add: longer_than_def)
  with submitRating_complete_db show ?thesis by blast
qed

subsection \<open>The schedule rule\<close>


lemma new_task_schedule_rule:
  assumes "validateTaskInput pf clock input = None" "scheduled_at_column pf input = Some sched"
  shows "schedule_rule (new_task c u input sched)"
proof (cases "c_time_window input = SCHEDULED")
  case True
  with assms(1) obtain raw where "c_scheduled_at input = Some raw"
    by (cases "c_scheduled_at input") (simp_all add: validateTaskInput_def split: if_splits)
  with True assms(2) show ?thesis
    by (auto simp: scheduled_at_column_def schedule_rule_def new_task_def)
next
  case False
  with assms(2) show ?thesis
    by (auto simp: scheduled_at_column_def schedule_rule_def new_task_def)
qed

lemma createTask_cases:
  "createTask pf c input s = (r, s') \<Longrightarrow>
     (\<not> success r \<and> s' = s) \<or>
     (\<exists>u sched. user c = Some u \<and> validateTaskInput pf (now c) input = None \<and>
        scheduled_at_column pf input = Some sched \<and>
        insert_task s u (new_task c u input sched) = Some s' \<and>
        r = Success (new_task c u input sched))"
  by (cases "user c")
     (auto simp: createTask_def split: if_splits option.splits)

lemma insert_task_result:
  "insert_task s u t = Some s' \<Longrightarrow> s' = s\<lparr>tasks := tasks s @ [t]\<rparr>"
  by (simp add: insert_task_def split: if_splits)

lemma createTask_schedule_rule:
  assumes "list_all schedule_rule (tasks s)"
  shows "list_all schedule_rule (tasks (snd (createTask pf c input s)))"
proof -
  obtain r s' where run: "createTask pf c input s = (r, s')" by (cases "createTask pf c input s")
  from createTask_cases[OF run] assms have "list_all schedule_rule (tasks s')"
    by (auto dest!: insert_task_result simp: new_task_schedule_rule)
  with run show ?thesis by simp
qed

lemma update_tasks_schedule_rule:
  assumes "update_tasks s u cond upd = Some s'" "\<And>t. schedule_rule (upd t) = schedule_rule t"
    "list_all schedule_rule (tasks s)"
  shows "list_all schedule_rule (tasks s')"
  using assms(2,3) unfolding update_tasks_result[OF assms(1)]
  by (auto simp: list_all_iff)

lemma insert_ignoring_error_tasks [simp]:
  "tasks (insert_ignoring_error s u m) = tasks s"
  by (simp add: insert_ignoring_error_def insert_message_def split: option.splits)

lemma schedule_rule_patch: "schedule_rule (update_patch input t) = schedule_rule t"
  by (simp add: schedule_rule_def update_patch_def Let_def split: option.splits)

lemma updateTask_cases:
  "updateTask c i input s = (r, s') \<Longrightarrow>
     s' = s \<or> (\<exists>u t. update_task_single s u (\<lambda>r. t_id r = i) (update_patch input) = Some (t, s'))"
  by (cases "user c"; cases "select_task s (user c) i")
     (auto simp: updateTask_def split: if_splits option.splits)

lemma updateTask_schedule_rule:
  assumes "list_all schedule_rule (tasks s)"
  shows "list_all schedule_rule (tasks (snd (updateTask c i input s)))"
proof -
  obtain r s' where run: "updateTask c i input s = (r, s')" by (cases "updateTask c i input s")
  from updateTask_cases[OF run] assms have "list_all schedule_rule (tasks s')"
    by (auto dest!: update_task_single_result simp: list_all_iff schedule_rule_patch)
  with run show ?thesis by simp
qed

lemma lifecycle_schedule_rule:
  assumes "list_all schedule_rule (tasks s)"
  shows "list_all schedule_rule (tasks (snd (acceptTask c i s)))"
    "list_all schedule_rule (tasks (snd (cancelTask c i s)))"
    "list_all schedule_rule (tasks (snd (completeTask c i s)))"
proof -
  show "list_all schedule_rule (tasks (snd (acceptTask c i s)))"
    using assms
    by (auto simp: acceptTask_def acceptTask_interleaved_def acceptTask_update_def
        schedule_rule_def split: sum.splits option.splits
        elim!: update_tasks_schedule_rule[rotated 2])
  show "list_all schedule_rule (tasks (snd (cancelTask c i s)))"
    using assms
    by (auto simp: cancelTask_def cancelTask_interleaved_def cancelTask_update_def
        schedule_rule_def split: sum.splits option.splits
        elim!: update_tasks_schedule_rule[rotated 2])
  show "list_all schedule_rule (tasks (snd (completeTask c i s)))"
    using assms
    by (auto simp: completeTask_def completeTask_interleaved_def completeTask_update_def
        schedule_rule_def split: sum.splits option.splits
        elim!: update_tasks_schedule_rule[rotated 2])
qed

lemma perform_schedule_rule:
  "list_all schedule_rule (tasks s) \<Longrightarrow> list_all schedule_rule (tasks (perform pf a s))"
  by (cases a)
     (simp_all add: createTask_schedule_rule updateTask_schedule_rule lifecycle_schedule_rule)

lemma run_schedule_rule:
  "list_all schedule_rule (tasks s) \<Longrightarrow> list_all schedule_rule (tasks (run pf acts s))"
  unfolding run_def
  by (induction acts arbitrary: s) (simp_all add: perform_schedule_rule)

lemma createTask_row_schedule_rule:
  assumes "createTask pf c input s = (Success t, s')"
  shows "schedule_rule t"
  using createTask_cases[OF assms] by (auto simp: new_task_schedule_rule)

text \<open>
  C5. Every row that \<^verbatim>\<open>createTask\<close> returns has \<^verbatim>\<open>scheduled_at\<close> non-null exactly when its
  time window is \<^verbatim>\<open>SCHEDULED\<close>; and when every row of \<^verbatim>\<open>tasks\<close> has that property, every
  row still has it after any sequence of \<^verbatim>\<open>createTask\<close>, \<^verbatim>\<open>updateTask\<close>, \<^verbatim>\<open>acceptTask\<close>,
  \<^verbatim>\<open>cancelTask\<close> and \<^verbatim>\<open>completeTask\<close> calls (by any callers, with any inputs).
\<close>

theorem scheduled_at_invariant:
  "(createTask pf c input s0 = (Success t, s1) \<longrightarrow> schedule_rule t) \<and>
   (list_all schedule_rule (tasks s) \<longrightarrow> list_all schedule_rule (tasks (run pf acts s)))"
  using createTask_row_schedule_rule run_schedule_rule by blast

lemma pickup_valid:
  "validateTaskInput demo_platform 1000 (pickup NOW None) = None"
  "validateTaskInput demo_platform 1000
     (pickup SCHEDULED (Some (js ''2030-01-01T00:00:00.000Z''))) = None"
  by (simp_all add: validateTaskInput_def pickup_def demo_platform_def string_defs)

lemma createTask_scheduled:
  "createTask demo_platform \<lparr>user = Some 7, now = 1000, new_id = 20\<rparr>
     (pickup SCHEDULED (Some (js ''2030-01-01T00:00:00.000Z''))) (demo_db [] [] [])
   = (Success ((demo_task 20 OPEN None 1000 1000)
                 \<lparr>time_window := SCHEDULED, scheduled_at := Some 1893456000000\<rparr>),
      demo_db [(demo_task 20 OPEN None 1000 1000)
                 \<lparr>time_window := SCHEDULED, scheduled_at := Some 1893456000000\<rparr>] [] [])"
  unfolding createTask_def
  by (simp add: pickup_valid)
     (simp add: scheduled_at_column_def new_task_def pickup_def demo_platform_def
        store_defs string_defs demo_defs)

lemma createTask_now:
  "createTask demo_platform \<lparr>user = Some 7, now = 1000, new_id = 21\<rparr> (pickup NOW None)
     (demo_db [(demo_task 20 OPEN None 1000 1000)
                 \<lparr>time_window := SCHEDULED, scheduled_at := Some 1893456000000\<rparr>] [] [])
   = (Success (demo_task 21 OPEN None 1000 1000),
      demo_db [(demo_task 20 OPEN None 1000 1000)
                 \<lparr>time_window := SCHEDULED, scheduled_at := Some 1893456000000\<rparr>,
               demo_task 21 OPEN None 1000 1000] [] [])"
  unfolding createTask_def
  by (simp add: pickup_valid)
     (simp add: scheduled_at_column_def new_task_def pickup_def demo_platform_def
        store_defs string_defs demo_defs)

theorem scheduled_at_invariant_witness:
  "createTask demo_platform \<lparr>user = Some 7, now = 1000, new_id = 20\<rparr>
     (pickup SCHEDULED (Some (js ''2030-01-01T00:00:00.000Z''))) (demo_db [] [] [])
   = (Success ((demo_task 20 OPEN None 1000 1000)
                 \<lparr>time_window := SCHEDULED, scheduled_at := Some 1893456000000\<rparr>),
      demo_db [(demo_task 20 OPEN None 1000 1000)
                 \<lparr>time_window := SCHEDULED, scheduled_at := Some 1893456000000\<rparr>] [] []) \<and>
   schedule_rule ((demo_task 20 OPEN None 1000 1000)
                 \<lparr>time_window := SCHEDULED, scheduled_at := Some 1893456000000\<rparr>) \<and>
   list_all schedule_rule (tasks (demo_db [] [] [])) \<and>
   map (\<lambda>t. (time_window t, scheduled_at t))
     (tasks (run demo_platform
        [Create \<lparr>user = Some 7, now = 1000, new_id = 20\<rparr>
           (pickup SCHEDULED (Some (js ''2030-01-01T00:00:00.000Z''))),
         Create \<lparr>user = Some 7, now = 1000, new_id = 21\<rparr> (pickup NOW None)]
        (demo_db [] [] [])))
     = [(SCHEDULED, Some 1893456000000), (NOW, None)] \<and>
   list_all schedule_rule
     (tasks (run demo_platform
        [Create \<lparr>user = Some 7, now = 1000, new_id = 20\<rparr>
           (pickup SCHEDULED (Some (js ''2030-01-01T00:00:00.000Z''))),
         Create \<lparr>user = Some 7, now = 1000, new_id = 21\<rparr> (pickup NOW None)]
        (demo_db [] [] [])))"
proof -
  have e: "list_all schedule_rule (tasks (demo_db [] [] []))"
    by (simp add: demo_db_def)
  have m: "map (\<lambda>t. (time_window t, scheduled_at t))
     (tasks (run demo_platform
        [Create \<lparr>user = Some 7, now = 1000, new_id = 20\<rparr>
           (pickup SCHEDULED (Some (js ''2030-01-01T00:00:00.000Z''))),
         Create \<lparr>user = Some 7, now = 1000, new_id = 21\<rparr> (pickup NOW None)]
        (demo_db [] [] [])))
     = [(SCHEDULED, Some 1893456000000), (NOW, None)]"
    by (simp add: run_def createTask_scheduled createTask_now)
       (simp add: demo_db_def demo_task_def)
  from e m createTask_scheduled
    scheduled_at_invariant [THEN conjunct1, rule_format, OF createTask_scheduled]
    scheduled_at_invariant [THEN conjunct2, rule_format, OF e]
  show ?thesis by blast
qed

subsection \<open>Input bounds\<close>


text \<open>Where the bounds are enforced: a caller without the rules flag, a blank or over-long
  title, description or location, a price outside 500..50000, and a \<^verbatim>\<open>SCHEDULED\<close> window
  whose timestamp is missing, empty, or parsed by \<^verbatim>\<open>Date\<close> to a time not after the clock,
  are all turned away with nothing written.\<close>

lemma validate_bounds:
  assumes "trim (c_title input) = [] \<or> length (c_title input) > 80 \<or>
           trim (c_description input) = [] \<or> length (c_description input) > 1000 \<or>
           trim (c_location_text input) = [] \<or> length (c_location_text input) > 120 \<or>
           c_price_cents input < 500 \<or> c_price_cents input > 50000 \<or>
           (c_time_window input = SCHEDULED \<and>
              (c_scheduled_at input = None \<or> c_scheduled_at input = Some [] \<or>
               (\<exists>raw d. c_scheduled_at input = Some raw \<and> date_parse pf raw = Some d \<and>
                        d \<le> clock)))"
  shows "validateTaskInput pf clock input \<noteq> None"
  using assms by (auto simp: validateTaskInput_def)

lemma createTask_rejects:
  assumes "(\<forall>u p. user c = Some u \<longrightarrow> select_profile s u = Some p \<longrightarrow> \<not> accepted_rules p) \<or>
           trim (c_title input) = [] \<or> length (c_title input) > 80 \<or>
           trim (c_description input) = [] \<or> length (c_description input) > 1000 \<or>
           trim (c_location_text input) = [] \<or> length (c_location_text input) > 120 \<or>
           c_price_cents input < 500 \<or> c_price_cents input > 50000 \<or>
           (c_time_window input = SCHEDULED \<and>
              (c_scheduled_at input = None \<or> c_scheduled_at input = Some [] \<or>
               (\<exists>raw d. c_scheduled_at input = Some raw \<and> date_parse pf raw = Some d \<and>
                        d \<le> now c)))"
  shows "\<not> success (fst (createTask pf c input s)) \<and> snd (createTask pf c input s) = s"
proof (cases "\<forall>u p. user c = Some u \<longrightarrow> select_profile s u = Some p \<longrightarrow> \<not> accepted_rules p")
  case True
  then show ?thesis
    by (cases "user c") (auto simp: createTask_def split: option.splits)
next
  case False
  with assms have "validateTaskInput pf (now c) input \<noteq> None"
    by (intro validate_bounds) blast
  then show ?thesis
    by (cases "user c") (auto simp: createTask_def split: option.splits)
qed

lemma updateTask_rejects_price:
  assumes "u_price_cents input = Some p" "p < 500 \<or> p > 50000"
  shows "\<not> success (fst (updateTask c taskId input s)) \<and> snd (updateTask c taskId input s) = s"
  using assms
  by (cases "user c"; cases "select_task s (user c) taskId")
     (auto simp: updateTask_def)

lemma epoch_valid:
  assumes "date_parse pf (js ''epoch'') = None"
  shows "validateTaskInput pf 1000 (pickup SCHEDULED (Some (js ''epoch''))) = None"
  using assms by (simp add: validateTaskInput_def pickup_def) (simp add: string_defs)

text \<open>
  C6, at the input where the action departs from it. \<^verbatim>\<open>scheduled_at = 'epoch'\<close> is a string
  that \<^verbatim>\<open>Date\<close> does not parse and the store's \<^verbatim>\<open>TIMESTAMPTZ\<close> column reads as time 0. The
  comparison of the invalid date with the clock is false, so validation passes; the insert
  succeeds; and \<^verbatim>\<open>createTask\<close> at clock 1000 returns success with a \<^verbatim>\<open>SCHEDULED\<close> task
  whose scheduled time 0 is in the past.
\<close>

theorem createTask_unparsed_schedule:
  assumes "date_parse pf (js ''epoch'') = None" "timestamptz_in pf (js ''epoch'') = Some 0"
  shows "createTask pf \<lparr>user = Some 7, now = 1000, new_id = 20\<rparr>
           (pickup SCHEDULED (Some (js ''epoch''))) (demo_db [] [] [])
         = (Success ((demo_task 20 OPEN None 1000 1000)
                       \<lparr>time_window := SCHEDULED, scheduled_at := Some 0\<rparr>),
            demo_db [(demo_task 20 OPEN None 1000 1000)
                       \<lparr>time_window := SCHEDULED, scheduled_at := Some 0\<rparr>] [] [])"
proof -
  have col: "scheduled_at_column pf (pickup SCHEDULED (Some (js ''epoch''))) = Some (Some 0)"
    using assms(2) by (simp add: scheduled_at_column_def pickup_def)
  have row: "new_task \<lparr>user = Some 7, now = 1000, new_id = 20\<rparr> 7
               (pickup SCHEDULED (Some (js ''epoch''))) (Some 0)
             = (demo_task 20 OPEN None 1000 1000)
                 \<lparr>time_window := SCHEDULED, scheduled_at := Some 0\<rparr>"
    by (simp add: new_task_def pickup_def demo_task_def string_defs)
  have ins: "insert_task (demo_db [] [] []) 7
               ((demo_task 20 OPEN None 1000 1000)
                  \<lparr>time_window := SCHEDULED, scheduled_at := Some 0\<rparr>)
             = Some (demo_db [(demo_task 20 OPEN None 1000 1000)
                       \<lparr>time_window := SCHEDULED, scheduled_at := Some 0\<rparr>] [] [])"
    by (simp add: store_defs string_defs demo_defs)
  have rules: "select_profile (demo_db [] [] []) 7 = Some (demo_profile 7 ''pat'' True)"
    by (simp add: store_defs demo_db_def) (simp add: demo_profile_def)
  show ?thesis
    unfolding createTask_def
    by (simp add: rules epoch_valid[OF assms(1)] col row ins) (simp add: demo_profile_def)
qed

theorem createTask_unparsed_schedule_witness:
  "date_parse demo_platform (js ''epoch'') = None \<and>
   timestamptz_in demo_platform (js ''epoch'') = Some 0 \<and>
   createTask demo_platform \<lparr>user = Some 7, now = 1000, new_id = 20\<rparr>
           (pickup SCHEDULED (Some (js ''epoch''))) (demo_db [] [] [])
         = (Success ((demo_task 20 OPEN None 1000 1000)
                       \<lparr>time_window := SCHEDULED, scheduled_at := Some 0\<rparr>),
            demo_db [(demo_task 20 OPEN None 1000 1000)
                       \<lparr>time_window := SCHEDULED, scheduled_at := Some 0\<rparr>] [] [])"
proof -
  have a: "date_parse demo_platform (js ''epoch'') = None"
    by (simp add: demo_platform_def js_def)
  have b: "timestamptz_in demo_platform (js ''epoch'') = Some 0"
    by (simp add: demo_platform_def js_def)
  from a b createTask_unparsed_schedule [OF a b] show ?thesis by blast
qed

subsection \<open>Accepting a task\<close>


lemma acceptTask_checks_open_db:
  "acceptTask_checks \<lparr>user = Some 8, now = 90, new_id = 40\<rparr> 10 open_db
     = Inr (8, demo_task 10 OPEN None 1000 10)"
  "acceptTask_checks \<lparr>user = Some 9, now = 95, new_id = 41\<rparr> 10 open_db
     = Inr (9, demo_task 10 OPEN None 1000 10)"
  by (simp_all add: acceptTask_checks_def store_defs open_db_def demo_defs)

lemma acceptTask_update_canceled_db:
  "acceptTask_update \<lparr>user = Some 8, now = 90, new_id = 40\<rparr> 8 10 canceled_db = Some canceled_db"
  by (simp add: acceptTask_update_def store_defs canceled_db_def demo_defs)

lemma accept_message_canceled_db:
  "insert_ignoring_error canceled_db 8
     (system_message \<lparr>user = Some 8, now = 90, new_id = 40\<rparr> 8 10 accepted_text) = canceled_db"
  by (simp add: insert_ignoring_error_def system_message_def store_defs canceled_db_def demo_defs)

lemma acceptTask_update_open_db:
  "acceptTask_update \<lparr>user = Some 8, now = 90, new_id = 40\<rparr> 8 10 open_db = Some open_db"
  "acceptTask_update \<lparr>user = Some 9, now = 95, new_id = 41\<rparr> 9 10 open_db = Some open_db"
  by (simp_all add: acceptTask_update_def store_defs open_db_def demo_defs)

lemma accept_message_open_db:
  "insert_ignoring_error open_db 8
     (system_message \<lparr>user = Some 8, now = 90, new_id = 40\<rparr> 8 10 accepted_text) = open_db"
  "insert_ignoring_error open_db 9
     (system_message \<lparr>user = Some 9, now = 95, new_id = 41\<rparr> 9 10 accepted_text) = open_db"
  by (simp_all add: insert_ignoring_error_def system_message_def store_defs open_db_def demo_defs)

lemma acceptTask_open_db:
  "acceptTask \<lparr>user = Some 9, now = 95, new_id = 41\<rparr> 10 open_db = (Success (), open_db)"
  unfolding acceptTask_def acceptTask_interleaved_def acceptTask_checks_open_db
  by (simp add: acceptTask_update_open_db accept_message_open_db)

text \<open>Once the checks have passed, a conditional update that finds the task no longer
  \<^verbatim>\<open>OPEN\<close> touches no row, and the action answers with success all the same.\<close>

lemma acceptTask_late_update_succeeds:
  assumes "acceptTask_checks c taskId s = Inr (u, t)"
    "\<forall>r \<in> set (tasks (i1 s)). \<not> (t_id r = taskId \<and> status r = OPEN)"
  shows "fst (acceptTask_interleaved c taskId i1 i2 s) = Success ()"
proof -
  have "\<exists>s'. acceptTask_update c u taskId (i1 s) = Some s'"
    unfolding acceptTask_update_def
    using assms(2) by (intro update_tasks_Some) (auto simp: update_target_def)
  with assms(1) show ?thesis
    by (auto simp: acceptTask_interleaved_def)
qed

text \<open>
  C1, at the inputs where the action departs from it. Worker 8 has read the open task 10
  and passed every check when the poster's cancellation lands; the status is \<^verbatim>\<open>CANCELED\<close>
  at the moment of the conditional update, the update touches no row and reports no error,
  and \<^verbatim>\<open>acceptTask\<close> returns success. Likewise, of two workers accepting the same open
  task, both are answered with success: the conditional update of each touches no row (the
  \<^verbatim>\<open>USING\<close> clause of \<^verbatim>\<open>tasks_update\<close> admits only rows whose poster or acceptor is already
  the caller), and a statement that touches no row is not an error.
\<close>

theorem acceptTask_lost_race:
  "map status (tasks open_db) = [OPEN] \<and>
   map status (tasks (snd (cancelTask \<lparr>user = Some 7, now = 100, new_id = 50\<rparr> 10 open_db)))
     = [CANCELED] \<and>
   acceptTask_interleaved \<lparr>user = Some 8, now = 90, new_id = 40\<rparr> 10
       (\<lambda>s. snd (cancelTask \<lparr>user = Some 7, now = 100, new_id = 50\<rparr> 10 s)) id open_db
     = (Success (), canceled_db) \<and>
   acceptTask \<lparr>user = Some 9, now = 95, new_id = 41\<rparr> 10 open_db = (Success (), open_db) \<and>
   acceptTask_interleaved \<lparr>user = Some 8, now = 90, new_id = 40\<rparr> 10
       (\<lambda>s. snd (acceptTask \<lparr>user = Some 9, now = 95, new_id = 41\<rparr> 10 s)) id open_db
     = (Success (), open_db)"
proof -
  have a: "map status (tasks open_db) = [OPEN]"
    by (simp add: open_db_def demo_db_def)
  have b: "map status (tasks (snd (cancelTask \<lparr>user = Some 7, now = 100, new_id = 50\<rparr> 10 open_db)))
     = [CANCELED]"
    by (simp add: cancelTask_open_db) (simp add: canceled_db_def demo_db_def)
  have c: "acceptTask_interleaved \<lparr>user = Some 8, now = 90, new_id = 40\<rparr> 10
       (\<lambda>s. snd (cancelTask \<lparr>user = Some 7, now = 100, new_id = 50\<rparr> 10 s)) id open_db
     = (Success (), canceled_db)"
    unfolding acceptTask_interleaved_def acceptTask_checks_open_db
    by (simp add: cancelTask_open_db acceptTask_update_canceled_db accept_message_canceled_db)
  have d: "acceptTask_interleaved \<lparr>user = Some 8, now = 90, new_id = 40\<rparr> 10
       (\<lambda>s. snd (acceptTask \<lparr>user = Some 9, now = 95, new_id = 41\<rparr> 10 s)) id open_db
     = (Success (), open_db)"
    unfolding acceptTask_interleaved_def acceptTask_checks_open_db
    by (simp add: acceptTask_open_db acceptTask_update_open_db accept_message_open_db)
  from a b c d acceptTask_open_db show ?thesis by blast
qed

subsection \<open>Transition and system message\<close>


lemma is_blocked_sym: "is_blocked s a b = is_blocked s b a"
  by (cases a; cases b) (auto simp: is_blocked_def list_ex_iff)

lemma is_blocked_None [simp]: "is_blocked s a None = False"
  by (cases a) (simp_all add: is_blocked_def)

lemma participant_not_blocked:
  assumes "tasks_read s u t" "poster_id t = u \<or> accepted_by_user_id t = Some u"
  shows "\<not> is_blocked s (Some (poster_id t)) (accepted_by_user_id t)"
proof (cases "poster_id t = u")
  case True
  with assms(1) show ?thesis
    by (cases "accepted_by_user_id t") (auto simp: tasks_read_def)
next
  case False
  with assms(2) have "accepted_by_user_id t = Some u" by simp
  with assms(1) show ?thesis
    by (simp add: tasks_read_def is_blocked_sym[of s "Some u" "Some (poster_id t)"])
qed

lemma constraints_profile:
  assumes "task_constraints s t" "poster_id t = u \<or> accepted_by_user_id t = Some u"
  shows "has_profile s u"
  using assms by (auto simp: task_constraints_def)

lemma update_tasks_admitted:
  assumes "update_tasks s u cond upd = Some s1" "t \<in> set (tasks s)" "update_target s u cond t"
  shows "update_admitted s u (upd t)"
  using assms by (auto simp: update_tasks_def list_all_iff split: if_splits)

lemma message_after_update:
  assumes upd: "update_tasks s u cond upd = Some s1"
    and t: "t \<in> set (tasks s)" "update_target s u cond t"
    and id: "t_id (upd t) = taskId"
    and chg: "status (upd t) \<noteq> status t"
    and part: "poster_id (upd t) = u \<or> accepted_by_user_id (upd t) = Some u"
    and nb: "\<not> is_blocked s (Some (poster_id (upd t))) (accepted_by_user_id (upd t))"
    and bd: "text_ok txt" "1 \<le> char_length txt" "char_length txt \<le> 2000"
    and fresh: "\<not> list_ex (\<lambda>q. m_id q = new_id c) (messages s)"
  shows "as_a_unit s (insert_ignoring_error s1 u (system_message c u taskId txt)) taskId"
proof -
  let ?f = "\<lambda>r. if update_target s u cond r then upd r else r"
  let ?m = "system_message c u taskId txt"
  note s1 = update_tasks_result[OF upd]
  from s1 have fr: "blocks s1 = blocks s" "profiles s1 = profiles s" "messages s1 = messages s"
    and ts: "tasks s1 = map ?f (tasks s)" by simp_all
  from update_tasks_admitted[OF upd t] have adm: "tasks_update_check s u (upd t)"
    "tasks_read s u (upd t)" "task_constraints s (upd t)"
    by (simp_all add: update_admitted_def)
  from t ts have mem: "upd t \<in> set (tasks s1)" by force
  have vis: "upd t \<in> set (visible_tasks s1 (Some u))"
    using mem adm(2) by (simp add: visible_tasks_def tasks_read_frame[OF fr(1)])
  have ins: "messages_insert s1 u ?m"
    unfolding messages_insert_def list_ex_iff
    using vis id part nb
    by (auto simp: system_message_def is_blocked_frame[OF fr(1)] intro!: bexI[where x = "upd t"])
  have con: "message_constraints s1 ?m"
    using bd mem id constraints_profile[OF adm(3) part]
    by (auto simp: message_constraints_def system_message_def has_task_def has_profile_def
        list_ex_iff fr(2))
  have pk: "\<not> list_ex (\<lambda>q. m_id q = m_id ?m) (messages s1)"
    using fresh by (simp add: fr(3) system_message_def)
  from ins con pk have "insert_ignoring_error s1 u ?m = s1\<lparr>messages := messages s1 @ [?m]\<rparr>"
    by (simp add: insert_ignoring_error_def insert_message_def message_admitted_def)
  moreover have "map status (tasks s1) \<noteq> map status (tasks s)"
  proof
    assume "map status (tasks s1) = map status (tasks s)"
    with ts have "map (\<lambda>r. status (?f r)) (tasks s) = map status (tasks s)"
      by (simp add: comp_def)
    then have "status (?f t) = status t" using t(1) unfolding map_eq_conv by blast
    with t(2) chg show False by simp
  qed
  ultimately show ?thesis
    by (simp add: as_a_unit_def one_system_message_def fr(3) system_message_def)
qed

lemma update_tasks_no_target:
  assumes "update_tasks s u cond upd = Some s1"
    "\<And>r. r \<in> set (tasks s) \<Longrightarrow> \<not> update_target s u cond r"
  shows "s1 = s"
proof -
  have "map (\<lambda>r. if update_target s u cond r then upd r else r) (tasks s) = tasks s"
    using assms(2) by (induction "tasks s") (auto intro: map_idI)
  with update_tasks_result[OF assms(1)] show ?thesis by simp
qed


lemma system_texts:
  "text_ok accepted_text" "1 \<le> char_length accepted_text" "char_length accepted_text \<le> 2000"
  "text_ok (canceled_text b)" "1 \<le> char_length (canceled_text b)"
  "char_length (canceled_text b) \<le> 2000"
  "text_ok completed_text" "1 \<le> char_length completed_text" "char_length completed_text \<le> 2000"
  by (simp_all add: accepted_text_def canceled_text_def completed_text_def string_defs)

lemma as_a_unit_same: "as_a_unit s s taskId"
  by (simp add: as_a_unit_def)

lemma cancelTask_unit:
  assumes fresh: "\<not> list_ex (\<lambda>q. m_id q = new_id c) (messages s)"
  shows "as_a_unit s (snd (cancelTask c taskId s)) taskId"
proof (cases "cancelTask_checks c taskId s")
  case (Inl e)
  then show ?thesis by (simp add: cancelTask_unfold as_a_unit_same)
next
  case (Inr p)
  then obtain u t where chk: "cancelTask_checks c taskId s = Inr (u, t)" by (cases p) simp
  then have sel: "select_task s (Some u) taskId = Some t"
    and part: "poster_id t = u \<or> accepted_by_user_id t = Some u"
    and st: "status t \<noteq> CANCELED"
    unfolding cancelTask_checks_Inr by simp_all
  show ?thesis
  proof (cases "cancelTask_update c u taskId s")
    case None
    with chk show ?thesis by (simp add: cancelTask_unfold as_a_unit_same)
  next
    case (Some s1)
    note d = select_task_SomeD(1-3)[OF sel]
    have tgt: "update_target s u (\<lambda>r. t_id r = taskId) t"
      using d part by (simp add: update_target_def tasks_update_using_def)
    have "as_a_unit s (insert_ignoring_error s1 u
            (system_message c u taskId (canceled_text (poster_id t = u)))) taskId"
    proof (rule message_after_update[OF Some[unfolded cancelTask_update_def] d(1) tgt])
      show "t_id (t\<lparr>status := CANCELED, canceled_at := Some (now c)\<rparr>) = taskId"
        using d(3) by simp
      show "status (t\<lparr>status := CANCELED, canceled_at := Some (now c)\<rparr>) \<noteq> status t"
        using st by simp
      show "poster_id (t\<lparr>status := CANCELED, canceled_at := Some (now c)\<rparr>) = u \<or>
            accepted_by_user_id (t\<lparr>status := CANCELED, canceled_at := Some (now c)\<rparr>) = Some u"
        using part by simp
      show "\<not> is_blocked s
               (Some (poster_id (t\<lparr>status := CANCELED, canceled_at := Some (now c)\<rparr>)))
               (accepted_by_user_id (t\<lparr>status := CANCELED, canceled_at := Some (now c)\<rparr>))"
        using participant_not_blocked[OF d(2) part] by simp
    qed (rule system_texts fresh)+
    with chk Some show ?thesis by (simp add: cancelTask_unfold)
  qed
qed


lemma completeTask_checks_InrD:
  assumes "completeTask_checks c taskId s = Inr (u, t)"
  shows "user c = Some u" "select_task s (Some u) taskId = Some t"
     "poster_id t = u" "status t = ACCEPTED"
  using assms
  by (simp_all add: completeTask_checks_def split: option.splits if_splits)

lemma completeTask_unfold:
  "completeTask c taskId s =
     (case completeTask_checks c taskId s of
        Inl e \<Rightarrow> (Failure e, s)
      | Inr (u, t) \<Rightarrow>
          (case completeTask_update c u taskId s of
             None \<Rightarrow> (Failure ''Failed to complete task'', s)
           | Some s' \<Rightarrow>
               (Success (),
                insert_ignoring_error s' u (system_message c u taskId completed_text))))"
  by (simp add: completeTask_def completeTask_interleaved_def
      split: sum.splits option.splits prod.splits)

lemma completeTask_unit:
  assumes fresh: "\<not> list_ex (\<lambda>q. m_id q = new_id c) (messages s)"
  shows "as_a_unit s (snd (completeTask c taskId s)) taskId"
proof (cases "completeTask_checks c taskId s")
  case (Inl e)
  then show ?thesis by (simp add: completeTask_unfold as_a_unit_same)
next
  case (Inr p)
  then obtain u t where chk: "completeTask_checks c taskId s = Inr (u, t)" by (cases p) simp
  from completeTask_checks_InrD[OF chk] have sel: "select_task s (Some u) taskId = Some t"
    and part: "poster_id t = u \<or> accepted_by_user_id t = Some u"
    and st: "status t \<noteq> COMPLETE"
    by simp_all
  show ?thesis
  proof (cases "completeTask_update c u taskId s")
    case None
    with chk show ?thesis by (simp add: completeTask_unfold as_a_unit_same)
  next
    case (Some s1)
    note d = select_task_SomeD(1-3)[OF sel]
    have tgt: "update_target s u (\<lambda>r. t_id r = taskId) t"
      using d part by (simp add: update_target_def tasks_update_using_def)
    have "as_a_unit s (insert_ignoring_error s1 u
            (system_message c u taskId completed_text)) taskId"
    proof (rule message_after_update[OF Some[unfolded completeTask_update_def] d(1) tgt])
      show "t_id (t\<lparr>status := COMPLETE, completed_at := Some (now c)\<rparr>) = taskId"
        using d(3) by simp
      show "status (t\<lparr>status := COMPLETE, completed_at := Some (now c)\<rparr>) \<noteq> status t"
        using st by simp
      show "poster_id (t\<lparr>status := COMPLETE, completed_at := Some (now c)\<rparr>) = u \<or>
            accepted_by_user_id (t\<lparr>status := COMPLETE, completed_at := Some (now c)\<rparr>) = Some u"
        using part by simp
      show "\<not> is_blocked s
               (Some (poster_id (t\<lparr>status := COMPLETE, completed_at := Some (now c)\<rparr>)))
               (accepted_by_user_id (t\<lparr>status := COMPLETE, completed_at := Some (now c)\<rparr>))"
        using participant_not_blocked[OF d(2) part] by simp
    qed (rule system_texts fresh)+
    with chk Some show ?thesis by (simp add: completeTask_unfold)
  qed
qed

lemma acceptTask_checks_InrD:
  assumes "acceptTask_checks c taskId s = Inr (u, t)"
  shows "user c = Some u" "select_task s (Some u) taskId = Some t"
     "poster_id t \<noteq> u" "status t = OPEN" "\<not> is_blocked s (Some u) (Some (poster_id t))"
  using assms
  by (simp_all add: acceptTask_checks_def split: option.splits if_splits)

lemma acceptTask_unfold:
  "acceptTask c taskId s =
     (case acceptTask_checks c taskId s of
        Inl e \<Rightarrow> (Failure e, s)
      | Inr (u, t) \<Rightarrow>
          (case acceptTask_update c u taskId s of
             None \<Rightarrow> (Failure ''Failed to accept task. It may have already been taken.'', s)
           | Some s' \<Rightarrow>
               (Success (),
                insert_ignoring_error s' u (system_message c u taskId accepted_text))))"
  by (simp add: acceptTask_def acceptTask_interleaved_def
      split: sum.splits option.splits prod.splits)

text \<open>A worker who is not yet on the row writes nothing: the update touches no row and the
  system message is refused, while the action still answers with success.\<close>

lemma acceptTask_no_effect:
  assumes chk: "acceptTask_checks c taskId s = Inr (u, t)"
    and acc: "accepted_by_user_id t \<noteq> Some u"
  shows "acceptTask c taskId s = (Success (), s)"
proof -
  from acceptTask_checks_InrD[OF chk]
  have sel: "select_task s (Some u) taskId = Some t" and np: "poster_id t \<noteq> u"
    by simp_all
  note d = select_task_SomeD[OF sel]
  have nt: "\<And>r. r \<in> set (tasks s) \<Longrightarrow>
              \<not> update_target s u (\<lambda>r. t_id r = taskId \<and> status r = OPEN) r"
  proof
    fix r assume r: "r \<in> set (tasks s)"
      "update_target s u (\<lambda>r. t_id r = taskId \<and> status r = OPEN) r"
    then have "r = t" using d(4)[of r] by (simp add: update_target_def)
    with r(2) np acc show False by (simp add: update_target_def tasks_update_using_def)
  qed
  have "\<exists>s1. acceptTask_update c u taskId s = Some s1"
    unfolding acceptTask_update_def by (rule update_tasks_Some) (simp add: nt)
  then obtain s1 where s1: "acceptTask_update c u taskId s = Some s1" by blast
  from update_tasks_no_target[OF s1[unfolded acceptTask_update_def] nt] have e: "s1 = s" .
  have "\<not> messages_insert s u (system_message c u taskId accepted_text)"
  proof
    assume "messages_insert s u (system_message c u taskId accepted_text)"
    then obtain r where r: "r \<in> set (tasks s)" "tasks_read s u r" "t_id r = taskId"
        "poster_id r = u \<or> accepted_by_user_id r = Some u"
      by (auto simp: messages_insert_def list_ex_iff visible_tasks_def system_message_def)
    then have "r = t" using d(4)[of r] by simp
    with r(4) np acc show False by simp
  qed
  then have "insert_ignoring_error s u (system_message c u taskId accepted_text) = s"
    by (simp add: insert_ignoring_error_def insert_message_def message_admitted_def)
  with chk s1 e show ?thesis by (simp add: acceptTask_unfold)
qed

lemma acceptTask_unit:
  assumes fresh: "\<not> list_ex (\<lambda>q. m_id q = new_id c) (messages s)"
  shows "as_a_unit s (snd (acceptTask c taskId s)) taskId"
proof (cases "acceptTask_checks c taskId s")
  case (Inl e)
  then show ?thesis by (simp add: acceptTask_unfold as_a_unit_same)
next
  case (Inr p)
  then obtain u t where chk: "acceptTask_checks c taskId s = Inr (u, t)" by (cases p) simp
  from acceptTask_checks_InrD[OF chk] have sel: "select_task s (Some u) taskId = Some t"
    and st: "status t = OPEN" and nb: "\<not> is_blocked s (Some u) (Some (poster_id t))"
    by simp_all
  show ?thesis
  proof (cases "accepted_by_user_id t = Some u")
    case False
    from acceptTask_no_effect[OF chk False] show ?thesis by (simp add: as_a_unit_same)
  next
    case True
    show ?thesis
    proof (cases "acceptTask_update c u taskId s")
      case None
      with chk show ?thesis by (simp add: acceptTask_unfold as_a_unit_same)
    next
      case (Some s1)
      note d = select_task_SomeD(1-3)[OF sel]
      have tgt: "update_target s u (\<lambda>r. t_id r = taskId \<and> status r = OPEN) t"
        using d True st by (simp add: update_target_def tasks_update_using_def)
      have "as_a_unit s (insert_ignoring_error s1 u
              (system_message c u taskId accepted_text)) taskId"
      proof (rule message_after_update[OF Some[unfolded acceptTask_update_def] d(1) tgt])
        show "t_id (t\<lparr>accepted_by_user_id := Some u, status := ACCEPTED,
                      accepted_at := Some (now c)\<rparr>) = taskId"
          using d(3) by simp
        show "status (t\<lparr>accepted_by_user_id := Some u, status := ACCEPTED,
                accepted_at := Some (now c)\<rparr>) \<noteq> status t"
          using st by simp
        show "poster_id (t\<lparr>accepted_by_user_id := Some u, status := ACCEPTED,
                    accepted_at := Some (now c)\<rparr>) = u \<or>
              accepted_by_user_id (t\<lparr>accepted_by_user_id := Some u, status := ACCEPTED,
                    accepted_at := Some (now c)\<rparr>) = Some u"
          by simp
        show "\<not> is_blocked s
                 (Some (poster_id (t\<lparr>accepted_by_user_id := Some u, status := ACCEPTED,
                    accepted_at := Some (now c)\<rparr>)))
                 (accepted_by_user_id (t\<lparr>accepted_by_user_id := Some u, status := ACCEPTED,
                    accepted_at := Some (now c)\<rparr>))"
          using nb by (simp add: is_blocked_sym[of s "Some (poster_id t)" "Some u"])
      qed (rule system_texts fresh)+
      with chk Some show ?thesis by (simp add: acceptTask_unfold)
    qed
  qed
qed

text \<open>
  C2, as the code has it. Each of \<^verbatim>\<open>acceptTask\<close>, \<^verbatim>\<open>cancelTask\<close> and \<^verbatim>\<open>completeTask\<close>,
  when no other request writes between its statements and the identifier generated for its
  message is unused, leaves the store in one of two shapes: the status of a task row has
  changed and exactly one system message of the task has been appended, or neither
  \<^verbatim>\<open>tasks\<close> nor \<^verbatim>\<open>messages\<close> has changed.
\<close>

theorem lifecycle_unit_sequential:
  assumes "\<not> list_ex (\<lambda>q. m_id q = new_id c) (messages s)"
  shows "as_a_unit s (snd (acceptTask c taskId s)) taskId \<and>
         as_a_unit s (snd (cancelTask c taskId s)) taskId \<and>
         as_a_unit s (snd (completeTask c taskId s)) taskId"
  using acceptTask_unit[OF assms] cancelTask_unit[OF assms] completeTask_unit[OF assms]
  by blast


theorem lifecycle_unit_sequential_witness:
  "\<not> list_ex (\<lambda>q. m_id q = new_id \<lparr>user = Some 7, now = 100, new_id = 50\<rparr>) (messages open_db) \<and>
   cancelTask \<lparr>user = Some 7, now = 100, new_id = 50\<rparr> 10 open_db = (Success (), canceled_db) \<and>
   as_a_unit open_db (snd (acceptTask \<lparr>user = Some 7, now = 100, new_id = 50\<rparr> 10 open_db)) 10 \<and>
   as_a_unit open_db (snd (cancelTask \<lparr>user = Some 7, now = 100, new_id = 50\<rparr> 10 open_db)) 10 \<and>
   as_a_unit open_db (snd (completeTask \<lparr>user = Some 7, now = 100, new_id = 50\<rparr> 10 open_db)) 10"
proof -
  have f: "\<not> list_ex (\<lambda>q. m_id q = new_id \<lparr>user = Some 7, now = 100, new_id = 50\<rparr>)
             (messages open_db)"
    by (simp add: open_db_def demo_db_def)
  from f cancelTask_open_db lifecycle_unit_sequential [OF f, of 10] show ?thesis by blast
qed

lemma cancelTask_checks_accepted_db:
  "cancelTask_checks \<lparr>user = Some 7, now = 100, new_id = 50\<rparr> 11 accepted_db
     = Inr (7, demo_task 11 ACCEPTED (Some 8) 3000 20)"
  by (simp add: cancelTask_checks_def store_defs accepted_db_def demo_defs)

lemma cancelTask_update_accepted_db:
  "cancelTask_update \<lparr>user = Some 7, now = 100, new_id = 50\<rparr> 7 11 accepted_db =
     Some (demo_db [(demo_task 11 ACCEPTED (Some 8) 3000 20)
                      \<lparr>status := CANCELED, canceled_at := Some 100\<rparr>] [] [])"
  by (simp add: cancelTask_update_def store_defs string_defs accepted_db_def demo_defs)

lemma blockUser_after_update:
  "blockUser \<lparr>user = Some 8, now = 101, new_id = 60\<rparr> 7
     (demo_db [(demo_task 11 ACCEPTED (Some 8) 3000 20)
                 \<lparr>status := CANCELED, canceled_at := Some 100\<rparr>] [] [])
   = (Success (), unannounced_db)"
  by (simp add: blockUser_def store_defs unannounced_db_def demo_defs)

lemma cancel_message_refused:
  "insert_ignoring_error unannounced_db 7
     (system_message \<lparr>user = Some 7, now = 100, new_id = 50\<rparr> 7 11 (canceled_text True))
   = unannounced_db"
  by (simp add: insert_ignoring_error_def system_message_def store_defs unannounced_db_def
      demo_defs)

lemma cancelTask_interleaved_accepted_db:
  "cancelTask_interleaved \<lparr>user = Some 7, now = 100, new_id = 50\<rparr> 11 id
       (\<lambda>s. snd (blockUser \<lparr>user = Some 8, now = 101, new_id = 60\<rparr> 7 s)) accepted_db
     = (Success (), unannounced_db)"
  unfolding cancelTask_interleaved_def cancelTask_checks_accepted_db
  by (simp add: cancelTask_update_accepted_db blockUser_after_update cancel_message_refused)

text \<open>The poster cancels the accepted task; the worker's \<^verbatim>\<open>blockUser\<close> lands between the
  update and the insert of the system message; the insert is refused by \<^verbatim>\<open>messages_insert\<close>
  and the action answers with success. The row is \<^verbatim>\<open>CANCELED\<close> and no message says so.\<close>

theorem cancelTask_unannounced_counterexample:
  "cancelTask_interleaved \<lparr>user = Some 7, now = 100, new_id = 50\<rparr> 11 id
       (\<lambda>s. snd (blockUser \<lparr>user = Some 8, now = 101, new_id = 60\<rparr> 7 s)) accepted_db
     = (Success (), unannounced_db) \<and>
   map status (tasks accepted_db) = [ACCEPTED] \<and>
   map status (tasks unannounced_db) = [CANCELED] \<and>
   messages unannounced_db = messages accepted_db \<and>
   \<not> as_a_unit accepted_db unannounced_db 11"
proof -
  have a: "map status (tasks accepted_db) = [ACCEPTED]"
    "map status (tasks unannounced_db) = [CANCELED]"
    "messages unannounced_db = messages accepted_db"
    by (simp_all add: accepted_db_def unannounced_db_def demo_db_def)
  have b: "\<not> as_a_unit accepted_db unannounced_db 11"
  proof
    assume "as_a_unit accepted_db unannounced_db 11"
    then have "tasks unannounced_db = tasks accepted_db \<or>
               length (messages unannounced_db) = Suc (length (messages accepted_db))"
      by (auto simp: as_a_unit_def one_system_message_def)
    then have "map status (tasks unannounced_db) = map status (tasks accepted_db)"
      by (auto simp: a(3))
    with a(1,2) show False by simp
  qed
  from a b cancelTask_interleaved_accepted_db show ?thesis by blast
qed

end
